theory Spec2Isabelle
  imports Main "HOL-Library.Word"
begin

unbundle bit_operations_syntax

section \<open>Values shared by the whole development\<close>

text \<open>
  Go's \<^verbatim>\<open>byte\<close> is an 8-bit word, \<^verbatim>\<open>uint64\<close> a 64-bit word and \<^verbatim>\<open>int\<close> (on the
  64-bit targets the proxy is built for) a 64-bit two's-complement word. A conversion to a
  narrower type (\<^verbatim>\<open>byte(x)\<close>) keeps the low bits, a conversion of an unsigned value to a
  wider type zero-extends: both are \<open>ucast\<close>.

  A Go function either returns normally, returns an error value, or panics. The three
  outcomes are the three constructors of \<open>result\<close>.
\<close>

type_synonym byte = "8 word"
type_synonym uint16 = "16 word"
type_synonym uint32 = "32 word"
type_synonym uint64 = "64 word"
type_synonym go_int = "64 word"

datatype error =
    ErrorMaskKeyLength      \<comment> \<open>\<^verbatim>\<open>mask key length must be exactly 4 bytes\<close>\<close>
  | ErrorWritingHeader      \<comment> \<open>\<^verbatim>\<open>writing header to the writer\<close>\<close>
  | EOF                     \<comment> \<open>\<^verbatim>\<open>io.EOF\<close>\<close>
  | ErrorUpgrading          \<comment> \<open>\<^verbatim>\<open>upgrading connection\<close>\<close>
  | ErrorNotCA              \<comment> \<open>\<^verbatim>\<open>CA Certificate is not really a CA.\<close>\<close>
  | ErrorSerialNumber error \<comment> \<open>\<^verbatim>\<open>Failed to generate serial number: %s\<close> around the cause\<close>
  | LibraryError string     \<comment> \<open>an error value handed up from a standard-library call\<close>
  | UrlError string string error
      \<comment> \<open>\<^verbatim>\<open>*url.Error{Op, URL, Err}\<close>, printed as \<^verbatim>\<open>Op "URL": Err\<close>\<close>

datatype panic =
    IntegerDivideByZero
  | IndexOutOfRange
  | NilDereference
  | FailedTypeAssertion
  | NilMapAssignment

datatype 'a result = Ok 'a | Error error | Panic panic

section \<open>The WebSocket frame codec\<close>

subsection \<open>Constants and the fragment\<close>

definition finalBit :: byte where "finalBit = 128"
definition rsv1Bit :: byte where "rsv1Bit = 64"
definition rsv2Bit :: byte where "rsv2Bit = 32"
definition rsv3Bit :: byte where "rsv3Bit = 16"
definition maskBit :: byte where "maskBit = 128"

record WebsocketFragment =
  FinBit :: bool
  Rsv1 :: bool
  Rsv2 :: bool
  Rsv3 :: bool
  OpCode :: go_int
  MaskBit :: bool
  PayloadLength :: uint64
  Key :: "byte list"
  Data :: "byte list"

subsection \<open>xorEncrypt\<close>

text \<open>
  \<^verbatim>\<open>
  func xorEncrypt(data, key []byte) []byte {
      encrypted := make([]byte, len(data))
      keyLen := len(key)
      for i, b := range data {
          encrypted[i] = b ^ key[i%keyLen]
      }
      return encrypted
  }
  \<close>
  The loop is \<open>xorLoop\<close>: its first argument is the part of \<open>data\<close> still to visit, \<open>i\<close>
  the index of its head. In Go the remainder by zero panics; it is evaluated once per
  element, so an empty \<open>data\<close> never reaches it. With \<open>keyLen > 0\<close> the index
  \<open>i % keyLen\<close> is in range of \<open>key\<close>, and \<open>i\<close> is in range of \<open>encrypted\<close>.
\<close>

fun xorLoop :: "byte list \<Rightarrow> nat \<Rightarrow> byte list \<Rightarrow> byte list \<Rightarrow> byte list result" where
  "xorLoop [] i key encrypted = Ok encrypted"
| "xorLoop (b # rest) i key encrypted =
     (if length key = 0 then Panic IntegerDivideByZero
      else xorLoop rest (i + 1) key (encrypted[i := b XOR key ! (i mod length key)]))"

definition xorEncrypt :: "byte list \<Rightarrow> byte list \<Rightarrow> byte list result" where
  "xorEncrypt data key = xorLoop data 0 key (replicate (length data) 0)"

subsection \<open>The byte sink\<close>

text \<open>
  An \<^verbatim>\<open>io.Writer\<close>: the bytes it has accepted so far and the room it has left
  (\<open>None\<close>: it never fails, as the \<^verbatim>\<open>bytes.Buffer\<close> of the tests). A write that does not
  fit delivers the bytes that do and reports an error.
\<close>

record sink =
  written :: "byte list"
  room :: "nat option"

definition sink_write :: "sink \<Rightarrow> byte list \<Rightarrow> bool \<times> sink" where
  "sink_write w p =
     (case room w of
        None \<Rightarrow> (False, w\<lparr>written := written w @ p\<rparr>)
      | Some r \<Rightarrow>
          if length p \<le> r then (False, w\<lparr>written := written w @ p, room := Some (r - length p)\<rparr>)
          else (True, w\<lparr>written := written w @ take r p, room := Some 0\<rparr>))"

subsection \<open>WebsocketFragment.Write\<close>

text \<open>
  The method builds the whole frame in \<^verbatim>\<open>header\<close> and hands it to the sink in one
  \<^verbatim>\<open>w.Write\<close>. The mask-key check returns before anything is handed to the sink. The
  payload is \<^verbatim>\<open>xorEncrypt(frame.Data, frame.Key)\<close> whatever \<^verbatim>\<open>frame.MaskBit\<close> says.
\<close>

definition Write :: "WebsocketFragment \<Rightarrow> sink \<Rightarrow> unit result \<times> sink" where
  "Write frame w =
    (let firstByte = (0 :: byte);
         firstByte = (if FinBit frame then firstByte OR finalBit else firstByte);
         firstByte = (if Rsv1 frame then firstByte OR rsv1Bit else firstByte);
         firstByte = (if Rsv2 frame then firstByte OR rsv2Bit else firstByte);
         firstByte = (if Rsv3 frame then firstByte OR rsv3Bit else firstByte);
         firstByte = firstByte OR ucast (OpCode frame);
         header = [firstByte];
         secondByte = (0 :: byte);
         secondByte = (if MaskBit frame then secondByte OR maskBit else secondByte);
         payloadLength = PayloadLength frame;
         header =
           (if payloadLength < 126 then
              header @ [secondByte OR ucast payloadLength]
            else if payloadLength < 65536 then
              header @ [secondByte OR 126,
                        ucast (drop_bit 8 payloadLength), ucast payloadLength]
            else
              header @ [secondByte OR 127,
                        ucast (drop_bit 56 payloadLength), ucast (drop_bit 48 payloadLength),
                        ucast (drop_bit 40 payloadLength), ucast (drop_bit 32 payloadLength),
                        ucast (drop_bit 24 payloadLength), ucast (drop_bit 16 payloadLength),
                        ucast (drop_bit 8 payloadLength), ucast payloadLength])
     in if MaskBit frame \<and> length (Key frame) \<noteq> 4 then (Error ErrorMaskKeyLength, w)
        else
          (let header = (if MaskBit frame then header @ Key frame else header) in
           case xorEncrypt (Data frame) (Key frame) of
             Panic p \<Rightarrow> (Panic p, w)
           | Error e \<Rightarrow> (Error e, w)
           | Ok encryptedData \<Rightarrow>
               (let header = header @ encryptedData in
                case sink_write w header of
                  (True, w') \<Rightarrow> (Error ErrorWritingHeader, w')
                | (False, w') \<Rightarrow> (Ok (), w'))))"

subsection \<open>ReadWebsocketFragment\<close>

text \<open>
  The \<^verbatim>\<open>bufio.Reader\<close> is the list of bytes its source still has to deliver; a read
  past the end is \<^verbatim>\<open>io.EOF\<close>. Every step takes the reader and returns it advanced.
\<close>

type_synonym reader = "byte list"

fun ReadByte :: "reader \<Rightarrow> byte result \<times> reader" where
  "ReadByte [] = (Error EOF, [])"
| "ReadByte (c # b) = (Ok c, b)"

definition andThen ::
  "(reader \<Rightarrow> 'a result \<times> reader) \<Rightarrow> ('a \<Rightarrow> reader \<Rightarrow> 'b result \<times> reader) \<Rightarrow>
   reader \<Rightarrow> 'b result \<times> reader" where
  "andThen m k b =
     (case m b of
        (Ok a, b') \<Rightarrow> k a b'
      | (Error e, b') \<Rightarrow> (Error e, b')
      | (Panic p, b') \<Rightarrow> (Panic p, b'))"

definition ret :: "'a result \<Rightarrow> reader \<Rightarrow> 'a result \<times> reader" where
  "ret a b = (a, b)"

text \<open>
  \<^verbatim>\<open>for i := 0; i < n; i++ { c, err := b.ReadByte(); ...; data = append(data, c) }\<close>:
  \<open>readBytes n b data\<close> runs the \<open>n\<close> iterations that are left.
\<close>

fun readBytes :: "nat \<Rightarrow> byte list \<Rightarrow> reader \<Rightarrow> byte list result \<times> reader" where
  "readBytes 0 data b = (Ok data, b)"
| "readBytes (Suc n) data b =
     (case ReadByte b of
        (Ok c, b') \<Rightarrow> readBytes n (data @ [c]) b'
      | (Error e, b') \<Rightarrow> (Error e, b')
      | (Panic p, b') \<Rightarrow> (Panic p, b'))"

text \<open>
  \<^verbatim>\<open>for i := 0; i < 4; i++ { k, err := b.ReadByte(); ...; key[i] = k }\<close>:
  \<open>readKey n i key b\<close> runs the \<open>n\<close> iterations that are left, the next one at index \<open>i\<close>.
\<close>

fun readKey :: "nat \<Rightarrow> nat \<Rightarrow> byte list \<Rightarrow> reader \<Rightarrow> byte list result \<times> reader" where
  "readKey 0 i key b = (Ok key, b)"
| "readKey (Suc n) i key b =
     (case ReadByte b of
        (Ok k, b') \<Rightarrow> readKey n (i + 1) (key[i := k]) b'
      | (Error e, b') \<Rightarrow> (Error e, b')
      | (Panic p, b') \<Rightarrow> (Panic p, b'))"

text \<open>\<^verbatim>\<open>binary.BigEndian.Uint16\<close> and \<^verbatim>\<open>binary.BigEndian.Uint64\<close>.\<close>

definition Uint16 :: "byte list \<Rightarrow> uint16" where
  "Uint16 b = ucast (b ! 1) OR push_bit 8 (ucast (b ! 0))"

definition Uint64 :: "byte list \<Rightarrow> uint64" where
  "Uint64 b =
     ucast (b ! 7) OR push_bit 8 (ucast (b ! 6)) OR push_bit 16 (ucast (b ! 5)) OR
     push_bit 24 (ucast (b ! 4)) OR push_bit 32 (ucast (b ! 3)) OR push_bit 40 (ucast (b ! 2)) OR
     push_bit 48 (ucast (b ! 1)) OR push_bit 56 (ucast (b ! 0))"

definition readLength :: "uint64 \<Rightarrow> reader \<Rightarrow> uint64 result \<times> reader" where
  "readLength payloadLength =
     (if payloadLength = 126 then
        andThen ReadByte (\<lambda>lenn1.
        andThen ReadByte (\<lambda>lenn2.
        ret (Ok (ucast (Uint16 ([] @ [lenn1, lenn2]))))))
      else if payloadLength = 127 then
        andThen (readBytes 8 []) (\<lambda>lenn.
        ret (Ok (Uint64 lenn)))
      else ret (Ok payloadLength))"

definition ReadWebsocketFragment :: "reader \<Rightarrow> WebsocketFragment result \<times> reader" where
  "ReadWebsocketFragment =
     andThen ReadByte (\<lambda>byteRead.
     let finBit = (byteRead AND finalBit \<noteq> 0);
         rsv1 = (byteRead AND rsv1Bit \<noteq> 0);
         rsv2 = (byteRead AND rsv2Bit \<noteq> 0);
         rsv3 = (byteRead AND rsv3Bit \<noteq> 0);
         opCode = (ucast (byteRead AND 15) :: go_int)
     in
     andThen ReadByte (\<lambda>byteRead.
     let mask = (byteRead AND maskBit \<noteq> 0);
         payloadLength = (ucast (byteRead AND 127) :: uint64)
     in
     andThen (readLength payloadLength) (\<lambda>payloadLength.
     andThen (if mask then readKey 4 0 (replicate 4 0) else ret (Ok (replicate 4 0))) (\<lambda>key.
     andThen (readBytes (unat payloadLength) []) (\<lambda>data.
     ret (case xorEncrypt data key of
             Ok plain \<Rightarrow>
               Ok \<lparr>FinBit = finBit, Rsv1 = rsv1, Rsv2 = rsv2, Rsv3 = rsv3, OpCode = opCode,
                   MaskBit = mask, PayloadLength = payloadLength, Key = key, Data = plain\<rparr>
           | Error e \<Rightarrow> Error e
           | Panic p \<Rightarrow> Panic p))))))"

subsection \<open>The relay pump\<close>

text \<open>
  \<^verbatim>\<open>
  func (proxy *Proxy) interceptWebsocket(dst io.Writer, src io.Reader,
          handler func(*WebsocketFragment) *WebsocketFragment) {
      scanner := bufio.NewReader(src)
      for {
          _, err := scanner.Peek(1)
          if err != nil {
              if err == io.EOF {
                  continue
              }
          }
          websocFrag, err := ReadWebsocketFragment(scanner)
          if err != nil {
              log.Printf("error decoding websocket message %v\n", err)
              continue
          }
          if handler != nil {
              websocFrag = handler(websocFrag)
          }
          websocFrag.Write(dst)

          if err != nil {
              log.Printf("error writing websocket message %v\n", err)
          }
      }
  }
  \<close>
  The body of the \<^verbatim>\<open>for\<close> has no \<^verbatim>\<open>break\<close> and no \<^verbatim>\<open>return\<close>. The loop may run for
  ever, so the model counts iterations: \<open>interceptWebsocket fuel\<close> runs at most \<open>fuel\<close>
  iterations and is \<open>None\<close> when the loop is still running after them. \<open>Some\<close> is
  the way the method ends, with the sink as it is then; \<open>Some (Ok (), _)\<close> would be a
  normal return. A handler may hand back \<^verbatim>\<open>nil\<close> (\<open>None\<close>), on which the call of
  \<^verbatim>\<open>Write\<close> dereferences a nil pointer. The value \<^verbatim>\<open>Write\<close> returns is dropped.
\<close>

definition Peek1 :: "reader \<Rightarrow> unit result" where
  "Peek1 b = (case b of [] \<Rightarrow> Error EOF | _ # _ \<Rightarrow> Ok ())"

fun interceptWebsocket ::
  "nat \<Rightarrow> sink \<Rightarrow> reader \<Rightarrow> (WebsocketFragment \<Rightarrow> WebsocketFragment option) option \<Rightarrow>
   (unit result \<times> sink) option" where
  "interceptWebsocket 0 dst scanner handler = None"
| "interceptWebsocket (Suc fuel) dst scanner handler =
     (if Peek1 scanner = Error EOF then interceptWebsocket fuel dst scanner handler
      else
        (case ReadWebsocketFragment scanner of
           (Error err, scanner') \<Rightarrow> interceptWebsocket fuel dst scanner' handler
         | (Panic p, scanner') \<Rightarrow> Some (Panic p, dst)
         | (Ok websocFrag, scanner') \<Rightarrow>
             (case (case handler of None \<Rightarrow> Some websocFrag | Some h \<Rightarrow> h websocFrag) of
                None \<Rightarrow> Some (Panic NilDereference, dst)
              | Some websocFrag' \<Rightarrow>
                  (case Write websocFrag' dst of
                     (Panic p, dst') \<Rightarrow> Some (Panic p, dst')
                   | (Error e, dst') \<Rightarrow> interceptWebsocket fuel dst' scanner' handler
                   | (Ok u, dst') \<Rightarrow> interceptWebsocket fuel dst' scanner' handler))))"

section \<open>The handshake accept key\<close>

subsection \<open>SHA-1 and base64 of Go's standard library\<close>

text \<open>
  \<^verbatim>\<open>crypto/sha1\<close> implements SHA-1 of FIPS 180-4 and \<^verbatim>\<open>base64.StdEncoding\<close> the
  encoding of RFC 4648 with padding. Both are written out here so that an accept key
  can be computed. A Go \<^verbatim>\<open>string\<close> is a sequence of bytes, as \<open>string\<close> is;
  \<open>bytes\<close> is the conversion \<^verbatim>\<open>[]byte(s)\<close>.
\<close>

definition bytes :: "string \<Rightarrow> byte list" where
  "bytes s = map (\<lambda>c. of_nat (of_char c)) s"

definition rotl :: "nat \<Rightarrow> uint32 \<Rightarrow> uint32" where
  "rotl n x = push_bit n x OR drop_bit (32 - n) x"

definition be32 :: "byte \<Rightarrow> byte \<Rightarrow> byte \<Rightarrow> byte \<Rightarrow> uint32" where
  "be32 a b c d =
     push_bit 24 (ucast a) OR push_bit 16 (ucast b) OR push_bit 8 (ucast c) OR ucast d"

fun blockWords :: "byte list \<Rightarrow> uint32 list" where
  "blockWords (a # b # c # d # rest) = be32 a b c d # blockWords rest"
| "blockWords _ = []"

text \<open>
  The message schedule: \<open>w\<close> holds the sixteen words \<open>W\<^sub>t \<dots> W\<^sub>t\<^sub>+\<^sub>1\<^sub>5\<close>, and
  \<open>W\<^sub>t\<^sub>+\<^sub>1\<^sub>6 = ROTL\<^sup>1 (W\<^sub>t\<^sub>+\<^sub>1\<^sub>3 XOR W\<^sub>t\<^sub>+\<^sub>8 XOR W\<^sub>t\<^sub>+\<^sub>2 XOR W\<^sub>t)\<close>.
\<close>

fun schedule :: "nat \<Rightarrow> uint32 list \<Rightarrow> uint32 list" where
  "schedule 0 w = []"
| "schedule (Suc n) w =
     hd w # schedule n (tl w @ [rotl 1 (w ! 13 XOR w ! 8 XOR w ! 2 XOR w ! 0)])"

type_synonym sha1_state = "uint32 \<times> uint32 \<times> uint32 \<times> uint32 \<times> uint32"

definition sha1_f :: "nat \<Rightarrow> uint32 \<Rightarrow> uint32 \<Rightarrow> uint32 \<Rightarrow> uint32" where
  "sha1_f t b c d =
     (if t < 20 then (b AND c) OR (NOT b AND d)
      else if t < 40 then b XOR c XOR d
      else if t < 60 then (b AND c) OR (b AND d) OR (c AND d)
      else b XOR c XOR d)"

definition sha1_k :: "nat \<Rightarrow> uint32" where
  "sha1_k t =
     (if t < 20 then 0x5A827999 else if t < 40 then 0x6ED9EBA1
      else if t < 60 then 0x8F1BBCDC else 0xCA62C1D6)"

fun rounds :: "nat \<Rightarrow> uint32 list \<Rightarrow> sha1_state \<Rightarrow> sha1_state" where
  "rounds t [] s = s"
| "rounds t (w # ws) (a, b, c, d, e) =
     rounds (t + 1) ws (rotl 5 a + sha1_f t b c d + e + sha1_k t + w, a, rotl 30 b, c, d)"

definition compress :: "sha1_state \<Rightarrow> byte list \<Rightarrow> sha1_state" where
  "compress h block =
     (case h of (h0, h1, h2, h3, h4) \<Rightarrow>
      case rounds 0 (schedule 80 (blockWords block)) h of (a, b, c, d, e) \<Rightarrow>
        (h0 + a, h1 + b, h2 + c, h3 + d, h4 + e))"

fun blocks :: "nat \<Rightarrow> sha1_state \<Rightarrow> byte list \<Rightarrow> sha1_state" where
  "blocks 0 h msg = h"
| "blocks (Suc n) h msg = blocks n (compress h (take 64 msg)) (drop 64 msg)"

definition be32_bytes :: "uint32 \<Rightarrow> byte list" where
  "be32_bytes x = [ucast (drop_bit 24 x), ucast (drop_bit 16 x), ucast (drop_bit 8 x), ucast x]"

definition be64_bytes :: "uint64 \<Rightarrow> byte list" where
  "be64_bytes x =
     [ucast (drop_bit 56 x), ucast (drop_bit 48 x), ucast (drop_bit 40 x), ucast (drop_bit 32 x),
      ucast (drop_bit 24 x), ucast (drop_bit 16 x), ucast (drop_bit 8 x), ucast x]"

text \<open>
  Padding: the byte \<open>0x80\<close>, zero bytes up to 56 modulo 64, and the length of the
  message in bits as a 64-bit big-endian number.
\<close>

definition sha1_pad :: "byte list \<Rightarrow> byte list" where
  "sha1_pad msg =
     msg @ [0x80] @ replicate ((119 - length msg mod 64) mod 64) 0 @
     be64_bytes (of_nat (8 * length msg))"

definition sha1 :: "byte list \<Rightarrow> byte list" where
  "sha1 msg =
     (case blocks (length (sha1_pad msg) div 64)
             (0x67452301, 0xEFCDAB89, 0x98BADCFE, 0x10325476, 0xC3D2E1F0) (sha1_pad msg) of
        (a, b, c, d, e) \<Rightarrow>
          be32_bytes a @ be32_bytes b @ be32_bytes c @ be32_bytes d @ be32_bytes e)"

text \<open>
  The \<^verbatim>\<open>hash.Hash\<close> that \<^verbatim>\<open>sha1.New()\<close> returns is the bytes written to it so far;
  \<^verbatim>\<open>Sum(b)\<close> appends the digest of them to \<open>b\<close>.
\<close>

definition sha1_New :: "byte list" where
  "sha1_New = []"

definition hash_Write :: "byte list \<Rightarrow> byte list \<Rightarrow> byte list" where
  "hash_Write h p = h @ p"

definition hash_Sum :: "byte list \<Rightarrow> byte list \<Rightarrow> byte list" where
  "hash_Sum h b = b @ sha1 h"

definition encodeStd :: string where
  "encodeStd = ''ABCDEFGHIJKLMNOPQRSTUVWXYZabcdefghijklmnopqrstuvwxyz0123456789+/''"

definition encodeChar :: "uint32 \<Rightarrow> char" where
  "encodeChar v = encodeStd ! unat (v AND 0x3F)"

fun EncodeToString :: "byte list \<Rightarrow> string" where
  "EncodeToString (s0 # s1 # s2 # rest) =
     (let val = push_bit 16 (ucast s0) OR push_bit 8 (ucast s1) OR ucast s2 in
      [encodeChar (drop_bit 18 val), encodeChar (drop_bit 12 val),
       encodeChar (drop_bit 6 val), encodeChar val] @ EncodeToString rest)"
| "EncodeToString [s0, s1] =
     (let val = push_bit 16 (ucast s0) OR push_bit 8 (ucast s1) in
      [encodeChar (drop_bit 18 val), encodeChar (drop_bit 12 val),
       encodeChar (drop_bit 6 val), CHR ''=''])"
| "EncodeToString [s0] =
     (let val = push_bit 16 (ucast s0) in
      [encodeChar (drop_bit 18 val), encodeChar (drop_bit 12 val), CHR ''='', CHR ''=''])"
| "EncodeToString [] = []"

subsection \<open>computeAcceptKey\<close>

definition keyGUID :: "byte list" where
  "keyGUID = bytes ''258EAFA5-E914-47DA-95CA-C5AB0DC85B11''"

definition computeAcceptKey :: "string \<Rightarrow> string" where
  "computeAcceptKey key =
     (let h = sha1_New;
          h = hash_Write h (bytes key);
          h = hash_Write h keyGUID
      in EncodeToString (hash_Sum h []))"

section \<open>The certificate cache\<close>

text \<open>
  The calls into \<^verbatim>\<open>crypto/rand\<close>, \<^verbatim>\<open>crypto/ecdsa\<close>, \<^verbatim>\<open>crypto/x509\<close>, \<^verbatim>\<open>net\<close> and
  \<^verbatim>\<open>time\<close> are parameters, collected in a record. They act on a state \<open>'w\<close> that stands
  for the clock and the entropy source: a call that draws randomness returns the state
  advanced. Times are nanoseconds; keys and DER encodings are byte strings.
\<close>

record x509_Certificate =
  SerialNumber :: nat
  SubjectCommonName :: string
  NotBefore :: int
  NotAfter :: int
  KeyUsage :: nat
  BasicConstraintsValid :: bool
  IsCA :: bool
  IPAddresses :: "byte list list"
  DNSNames :: "string list"

record tls_Certificate =
  Certificate :: "byte list list"
  PrivateKey :: "byte list"
  Leaf :: "x509_Certificate option"

record 'w crypto =
  time_Now :: "'w \<Rightarrow> int"
  rand_Int :: "nat \<Rightarrow> 'w \<Rightarrow> nat result \<times> 'w"
  net_ParseIP :: "string \<Rightarrow> byte list option"
  ecdsa_GenerateKey :: "'w \<Rightarrow> byte list result \<times> 'w"
  x509_CreateCertificate ::
    "x509_Certificate \<Rightarrow> x509_Certificate \<Rightarrow> byte list \<Rightarrow> byte list \<Rightarrow> 'w \<Rightarrow> byte list result \<times> 'w"
  x509_ParseCertificate :: "byte list \<Rightarrow> x509_Certificate option"

definition Hour :: int where
  "Hour = 3600 * 1000000000"

definition leafMaxAge :: int where
  "leafMaxAge = 24 * Hour"

definition KeyUsageDigitalSignature :: nat where
  "KeyUsageDigitalSignature = 1"

text \<open>
  \<^verbatim>\<open>GenerateCert\<close>: the CA must be a CA, then a serial number below \<open>2\<^sup>1\<^sup>2\<^sup>8\<close>, the
  template, a fresh key and the signed certificate. Each library error is returned at
  once. \<^verbatim>\<open>ca.Leaf\<close> is a pointer, \<open>None\<close> when it is \<^verbatim>\<open>nil\<close>.
\<close>

definition GenerateCert ::
  "'w crypto \<Rightarrow> tls_Certificate \<Rightarrow> string \<Rightarrow> 'w \<Rightarrow> tls_Certificate result \<times> 'w" where
  "GenerateCert lib ca host w =
     (let now = time_Now lib w + (- 1) * Hour in
      case Leaf ca of
        None \<Rightarrow> (Panic NilDereference, w)
      | Some caLeaf \<Rightarrow>
          if \<not> IsCA caLeaf then (Error ErrorNotCA, w)
          else
            (let serialNumberLimit = push_bit 128 (1 :: nat) in
             case rand_Int lib serialNumberLimit w of
               (Error err, w) \<Rightarrow> (Error (ErrorSerialNumber err), w)
             | (Panic p, w) \<Rightarrow> (Panic p, w)
             | (Ok serialNumber, w) \<Rightarrow>
                 (let template =
                        \<lparr>SerialNumber = serialNumber, SubjectCommonName = host,
                         NotBefore = now, NotAfter = now + leafMaxAge,
                         KeyUsage = KeyUsageDigitalSignature, BasicConstraintsValid = True,
                         IsCA = False, IPAddresses = [], DNSNames = []\<rparr>;
                      template =
                        (case net_ParseIP lib host of
                           Some ip \<Rightarrow> template\<lparr>IPAddresses := IPAddresses template @ [ip]\<rparr>
                         | None \<Rightarrow> template\<lparr>DNSNames := DNSNames template @ [host]\<rparr>)
                  in
                  case ecdsa_GenerateKey lib w of
                    (Error err, w) \<Rightarrow> (Error err, w)
                  | (Panic p, w) \<Rightarrow> (Panic p, w)
                  | (Ok key, w) \<Rightarrow>
                      (case x509_CreateCertificate lib template caLeaf key (PrivateKey ca) w of
                         (Error err, w) \<Rightarrow> (Error err, w)
                       | (Panic p, w) \<Rightarrow> (Panic p, w)
                       | (Ok derBytes, w) \<Rightarrow>
                           (Ok \<lparr>Certificate = [] @ [derBytes], PrivateKey = key,
                                Leaf = x509_ParseCertificate lib derBytes\<rparr>, w)))))"

text \<open>
  \<^verbatim>\<open>
  var certs map[string]*tls.Certificate

  func getCert(ca tls.Certificate, host string) (*tls.Certificate, error) {
      if val, ok := certs[host]; ok {
          return val, nil
      }
      cert, err := GenerateCert(ca, host)
      if err != nil {
          return nil, err
      }
      certs[host] = cert
      return cert, nil
  }
  \<close>
  The package variable \<^verbatim>\<open>certs\<close> is passed in and returned. It is \<open>None\<close> while it is
  the nil map (before \<^verbatim>\<open>NewProxy\<close> has made it): a lookup in the nil map finds nothing, a
  store into it panics.
\<close>

type_synonym cert_cache = "(string \<rightharpoonup> tls_Certificate) option"

definition cache_lookup :: "cert_cache \<Rightarrow> string \<Rightarrow> tls_Certificate option" where
  "cache_lookup certs host = (case certs of None \<Rightarrow> None | Some m \<Rightarrow> m host)"

definition getCert ::
  "'w crypto \<Rightarrow> cert_cache \<Rightarrow> tls_Certificate \<Rightarrow> string \<Rightarrow> 'w \<Rightarrow>
   tls_Certificate result \<times> cert_cache \<times> 'w" where
  "getCert lib certs ca host w =
     (case cache_lookup certs host of
        Some val \<Rightarrow> (Ok val, certs, w)
      | None \<Rightarrow>
          (case GenerateCert lib ca host w of
             (Error err, w') \<Rightarrow> (Error err, certs, w')
           | (Panic p, w') \<Rightarrow> (Panic p, certs, w')
           | (Ok cert, w') \<Rightarrow>
               (case certs of
                  None \<Rightarrow> (Panic NilMapAssignment, certs, w')
                | Some m \<Rightarrow> (Ok cert, Some (m(host \<mapsto> cert)), w'))))"

section \<open>Requests\<close>

text \<open>
  The parts of \<^verbatim>\<open>http.Request\<close>, \<^verbatim>\<open>url.URL\<close> and \<^verbatim>\<open>http.Response\<close> the proxy touches.
  An \<^verbatim>\<open>http.Header\<close> is a \<^verbatim>\<open>map[string][]string\<close>. The request and its URL are
  pointers that \<^verbatim>\<open>net/http\<close> hands over non-nil, and are modelled as values; what a
  function writes through them is returned as the updated request.
\<close>

type_synonym header = "string \<rightharpoonup> string list"

record url =
  Scheme :: string
  Host :: string
  Path :: string

record request =
  Method :: string
  URL :: url
  RequestURI :: string
  ReqHost :: string
  Header :: header
  Body :: "byte list"

record response =
  Status :: string
  StatusCode :: int
  Proto :: string
  RespHeader :: header
  RespBody :: "byte list"

subsection \<open>forwardReq\<close>

text \<open>
  \<^verbatim>\<open>
  func (p *Proxy) forwardReq(ctx context.Context, clientRequest *http.Request,
          destinationHost string) (*http.Response, error) {
      if p.HandleRequest != nil {
          hResp := p.HandleRequest(ctx.Value("session").(int64), clientRequest)
          if hResp != nil {
              return hResp, nil
          }
      }
      clientRequest.RequestURI = ""
      u, err := url.Parse(destinationHost)
      if err != nil {
          return nil, err
      }
      clientRequest.URL.Scheme = u.Scheme
      clientRequest.URL.Host = u.Host
      return p.HttpClient.Do(clientRequest)
  }
  \<close>
  A handler gets the session number and the request, may change the request, and
  returns a response or \<^verbatim>\<open>nil\<close>. The context maps keys to values; the type assertion
  \<^verbatim>\<open>.(int64)\<close> panics on a missing value and on one of another type. \<^verbatim>\<open>url.Parse\<close> is
  a parameter. The upstream side is the list of the requests handed to
  \<^verbatim>\<open>HttpClient.Do\<close> so far, and \<open>HttpClient_Do\<close> says what the network answers to the
  next one: a call appends its request to the list.
\<close>

datatype ctx_value = Int64 "64 word" | OtherValue

type_synonym go_context = "string \<rightharpoonup> ctx_value"

record Proxy =
  HandleRequest :: "(64 word \<Rightarrow> request \<Rightarrow> response option \<times> request) option"
  HttpClient_Do :: "request list \<Rightarrow> request \<Rightarrow> response result"

definition forwardReq ::
  "(string \<Rightarrow> url result) \<Rightarrow> Proxy \<Rightarrow> go_context \<Rightarrow> request \<Rightarrow> string \<Rightarrow> request list \<Rightarrow>
   response result \<times> request \<times> request list" where
  "forwardReq url_Parse p ctx clientRequest destinationHost upstream =
     (let handled =
            (case HandleRequest p of
               None \<Rightarrow> Ok (None, clientRequest)
             | Some h \<Rightarrow>
                 (case ctx ''session'' of
                    Some (Int64 session) \<Rightarrow> Ok (h session clientRequest)
                  | _ \<Rightarrow> Panic FailedTypeAssertion))
      in
      case handled of
        Panic pn \<Rightarrow> (Panic pn, clientRequest, upstream)
      | Error e \<Rightarrow> (Error e, clientRequest, upstream)
      | Ok (Some hResp, clientRequest) \<Rightarrow> (Ok hResp, clientRequest, upstream)
      | Ok (None, clientRequest) \<Rightarrow>
          (let clientRequest = clientRequest\<lparr>RequestURI := []\<rparr> in
           case url_Parse destinationHost of
             Error err \<Rightarrow> (Error err, clientRequest, upstream)
           | Panic pn \<Rightarrow> (Panic pn, clientRequest, upstream)
           | Ok u \<Rightarrow>
               (let clientRequest =
                      clientRequest\<lparr>URL := (URL clientRequest)\<lparr>Scheme := Scheme u, Host := Host u\<rparr>\<rparr>
                in (HttpClient_Do p upstream clientRequest, clientRequest,
                    upstream @ [clientRequest]))))"

subsection \<open>The WebSocket gate and handshake\<close>

text \<open>
  \<^verbatim>\<open>strings.Split(v, ",")\<close> cuts at every comma and gives at least one piece.
  \<^verbatim>\<open>strings.EqualFold\<close> (equality under Unicode simple case folding) and
  \<^verbatim>\<open>strings.TrimSpace\<close> (trimming of Unicode white space) rest on the Unicode tables
  of the standard library and are parameters.
\<close>

fun Split :: "string \<Rightarrow> char \<Rightarrow> string list" where
  "Split [] sep = [[]]"
| "Split (c # cs) sep =
     (if c = sep then [] # Split cs sep
      else (case Split cs sep of [] \<Rightarrow> [[c]] | x # xs \<Rightarrow> (c # x) # xs))"

record strings_lib =
  strings_EqualFold :: "string \<Rightarrow> string \<Rightarrow> bool"
  strings_TrimSpace :: "string \<Rightarrow> string"

text \<open>
  \<^verbatim>\<open>
  func headerContains(header http.Header, name string, value string) bool {
      for _, v := range header[name] {
          for _, s := range strings.Split(v, ",") {
              if strings.EqualFold(value, strings.TrimSpace(s)) {
                  return true
              }
          }
      }
      return false
  }
  \<close>
\<close>

definition headerContains :: "strings_lib \<Rightarrow> header \<Rightarrow> string \<Rightarrow> string \<Rightarrow> bool" where
  "headerContains strings hdr name v =
     (case hdr name of
        None \<Rightarrow> False
      | Some vs \<Rightarrow>
          list_ex
            (\<lambda>v'. list_ex (\<lambda>s. strings_EqualFold strings v (strings_TrimSpace strings s))
                   (Split v' CHR '',''))
            vs)"

definition isWebSocketRequest :: "strings_lib \<Rightarrow> request \<Rightarrow> bool" where
  "isWebSocketRequest strings r =
     (headerContains strings (Header r) ''Connection'' ''upgrade'' \<and>
      headerContains strings (Header r) ''Upgrade'' ''websocket'')"

text \<open>
  \<^verbatim>\<open>websocketHandshake\<close> starts with
  \<^verbatim>\<open>secWebsocketKey := req.Header["Sec-Websocket-Key"][0]\<close>: a key the map does not hold
  gives the nil slice, and element 0 of an empty slice is out of range. The writes and
  reads on the two connections and the random key are library calls, parameters acting
  on a state \<open>'n\<close> that stands for both connections and the entropy source.
\<close>

record 'n handshake_io =
  Response_Write :: "response \<Rightarrow> 'n \<Rightarrow> error option \<times> 'n"
  rand_Read :: "byte list \<Rightarrow> 'n \<Rightarrow> byte list \<times> 'n"
  Request_Write :: "request \<Rightarrow> 'n \<Rightarrow> 'n"
  http_ReadResponse :: "'n \<Rightarrow> response result \<times> 'n"

text \<open>
  \<^verbatim>\<open>generateWebSocketKey\<close>: sixteen bytes, filled by \<^verbatim>\<open>rand.Read\<close> (whose error is not
  looked at), in base64.
\<close>

definition generateWebSocketKey :: "'n handshake_io \<Rightarrow> 'n \<Rightarrow> string \<times> 'n" where
  "generateWebSocketKey io n =
     (case rand_Read io (replicate 16 0) n of (key, n) \<Rightarrow> (EncodeToString key, n))"

text \<open>
  \<^verbatim>\<open>Header.Add\<close> and \<^verbatim>\<open>Header.Set\<close> store under the canonical form of the key, which
  is how the keys are written here.
\<close>

definition header_Add :: "header \<Rightarrow> string \<Rightarrow> string \<Rightarrow> header" where
  "header_Add h k v = h(k \<mapsto> (case h k of None \<Rightarrow> [] | Some vs \<Rightarrow> vs) @ [v])"

definition header_Set :: "header \<Rightarrow> string \<Rightarrow> string \<Rightarrow> header" where
  "header_Set h k v = h(k \<mapsto> [v])"

definition websocketHandshake ::
  "'n handshake_io \<Rightarrow> request \<Rightarrow> 'n \<Rightarrow> unit result \<times> 'n" where
  "websocketHandshake io req n =
     (case (case Header req ''Sec-Websocket-Key'' of None \<Rightarrow> [] | Some vs \<Rightarrow> vs) of
        [] \<Rightarrow> (Panic IndexOutOfRange, n)
      | secWebsocketKey # _ \<Rightarrow>
          (let secWebsocketAccept = computeAcceptKey secWebsocketKey;
               hdr = Map.empty;
               hdr = header_Add hdr ''Sec-Websocket-Accept'' secWebsocketAccept;
               hdr = header_Add hdr ''Connection'' ''Upgrade'';
               hdr = header_Add hdr ''Upgrade'' ''websocket'';
               resp = \<lparr>Status = ''101 Switch Protocol'', StatusCode = 101,
                       Proto = ''HTTP/1.1'', RespHeader = hdr, RespBody = []\<rparr>
           in
           case Response_Write io resp n of
             (Some err, n) \<Rightarrow> (Error err, n)
           | (None, n) \<Rightarrow>
               (case generateWebSocketKey io n of
                  (websocketKey, n) \<Rightarrow>
                    (let hdr = Map.empty;
                         hdr = header_Set hdr ''Connection'' ''Upgrade'';
                         hdr = header_Set hdr ''Upgrade'' ''websocket'';
                         hdr = header_Set hdr ''Sec-Websocket-Key'' websocketKey;
                         hdr = header_Set hdr ''Sec-Websocket-Version'' ''13'';
                         rq = \<lparr>Method = ''GET'',
                               URL = \<lparr>Scheme = ''ws'', Host = ''127.0.0.1'', Path = []\<rparr>,
                               RequestURI = [], ReqHost = [], Header = hdr, Body = []\<rparr>;
                         n = Request_Write io rq n
                     in
                     case http_ReadResponse io n of
                       (Error err, n) \<Rightarrow> (Error err, n)
                     | (Panic p, n) \<Rightarrow> (Panic p, n)
                     | (Ok target_site_response, n) \<Rightarrow>
                         if StatusCode target_site_response \<noteq> 101
                         then (Error ErrorUpgrading, n)
                         else (Ok (), n)))))"

text \<open>
  \<^verbatim>\<open>serveWebsocket\<close> dials the target and, when the dial succeeds, runs the handshake;
  only after a handshake without error does it start the relay. \<open>connectDial\<close> is the
  outcome of the dial on the state.
\<close>

datatype served = DialFailed | HandshakeFailed error | Relaying

definition serveWebsocket ::
  "('n \<Rightarrow> bool \<times> 'n) \<Rightarrow> 'n handshake_io \<Rightarrow> request \<Rightarrow> 'n \<Rightarrow> served result \<times> 'n" where
  "serveWebsocket connectDial io req n =
     (case connectDial n of
        (False, n) \<Rightarrow> (Ok DialFailed, n)
      | (True, n) \<Rightarrow>
          (case websocketHandshake io req n of
             (Error err, n) \<Rightarrow> (Ok (HandshakeFailed err), n)
           | (Panic p, n) \<Rightarrow> (Panic p, n)
           | (Ok u, n) \<Rightarrow> (Ok Relaying, n)))"

section \<open>Auxiliary definitions\<close>

text \<open>
  The frame \<^verbatim>\<open>Write\<close> hands to the sink, in parts: the first byte, the second byte with
  the extended length, and the key bytes. \<open>xorFrom i key data\<close> is \<open>data\<close> with the
  key laid over it from key position \<open>i\<close> on, and \<open>emptySink\<close> a sink that has
  accepted nothing yet and never fails.
\<close>

fun xorFrom :: "nat \<Rightarrow> byte list \<Rightarrow> byte list \<Rightarrow> byte list" where
  "xorFrom i key [] = []"
| "xorFrom i key (b # bs) = (b XOR key ! (i mod length key)) # xorFrom (Suc i) key bs"

definition firstByteOf :: "WebsocketFragment \<Rightarrow> byte" where
  "firstByteOf f =
     ((((if FinBit f then 128 else 0) OR (if Rsv1 f then 64 else 0)) OR
       (if Rsv2 f then 32 else 0)) OR (if Rsv3 f then 16 else 0)) OR ucast (OpCode f)"

definition maskFlag :: "WebsocketFragment \<Rightarrow> byte" where
  "maskFlag f = (if MaskBit f then 128 else 0)"

definition lengthBytesOf :: "WebsocketFragment \<Rightarrow> byte list" where
  "lengthBytesOf f =
     (if PayloadLength f < 126 then [maskFlag f OR ucast (PayloadLength f)]
      else if PayloadLength f < 65536 then
        [maskFlag f OR 126, ucast (drop_bit 8 (PayloadLength f)), ucast (PayloadLength f)]
      else
        [maskFlag f OR 127,
         ucast (drop_bit 56 (PayloadLength f)), ucast (drop_bit 48 (PayloadLength f)),
         ucast (drop_bit 40 (PayloadLength f)), ucast (drop_bit 32 (PayloadLength f)),
         ucast (drop_bit 24 (PayloadLength f)), ucast (drop_bit 16 (PayloadLength f)),
         ucast (drop_bit 8 (PayloadLength f)), ucast (PayloadLength f)])"

definition keyBytesOf :: "WebsocketFragment \<Rightarrow> byte list" where
  "keyBytesOf f = (if MaskBit f then Key f else [])"

definition emptySink :: sink where
  "emptySink = \<lparr>written = [], room = None\<rparr>"

text \<open>Fragments the examples are run on.\<close>

definition helloFrame :: WebsocketFragment where
  "helloFrame =
     \<lparr>FinBit = True, Rsv1 = False, Rsv2 = False, Rsv3 = False, OpCode = 2, MaskBit = True,
      PayloadLength = 11, Key = [0x1A, 0x2B, 0x3C, 0x4D],
      Data = [0x68, 0x65, 0x6C, 0x6C, 0x6F, 0x20, 0x77, 0x6F, 0x72, 0x6C, 0x64]\<rparr>"

definition plainFrame :: WebsocketFragment where
  "plainFrame =
     \<lparr>FinBit = True, Rsv1 = False, Rsv2 = False, Rsv3 = False, OpCode = 1, MaskBit = False,
      PayloadLength = 2, Key = [0, 0, 0, 0], Data = [0x68, 0x69]\<rparr>"

text \<open>
  Stand-ins for the library on which the examples are run. The entropy and the clock are
  a counter. \<open>exampleCrypto\<close> answers every call; \<open>failingCrypto\<close> is the same with an
  entropy source that fails.
\<close>

definition exampleCrypto :: "nat crypto" where
  "exampleCrypto =
     \<lparr>time_Now = (\<lambda>w. 0),
      rand_Int = (\<lambda>limit w. (Ok (w mod limit), Suc w)),
      net_ParseIP = (\<lambda>host. None),
      ecdsa_GenerateKey = (\<lambda>w. (Ok [of_nat w], Suc w)),
      x509_CreateCertificate = (\<lambda>template parent pub priv w. (Ok [of_nat (SerialNumber template)], Suc w)),
      x509_ParseCertificate = (\<lambda>der. None)\<rparr>"

definition failingCrypto :: "nat crypto" where
  "failingCrypto = exampleCrypto\<lparr>rand_Int := (\<lambda>limit w. (Error (LibraryError ''entropy''), w))\<rparr>"

definition exampleCA :: tls_Certificate where
  "exampleCA =
     \<lparr>Certificate = [[1]], PrivateKey = [2],
      Leaf = Some \<lparr>SerialNumber = 1, SubjectCommonName = ''ca'', NotBefore = 0, NotAfter = 1,
                   KeyUsage = 1, BasicConstraintsValid = True, IsCA = True,
                   IPAddresses = [], DNSNames = []\<rparr>\<rparr>"

text \<open>The certificates \<open>exampleCrypto\<close> mints at the counter values 4 and 7.\<close>

definition leafA :: tls_Certificate where
  "leafA = \<lparr>Certificate = [[4]], PrivateKey = [5], Leaf = None\<rparr>"

definition leafB :: tls_Certificate where
  "leafB = \<lparr>Certificate = [[7]], PrivateKey = [8], Leaf = None\<rparr>"

text \<open>
  \<open>urlParse_example\<close> stands for \<^verbatim>\<open>url.Parse\<close> on the two strings the examples pass to
  it: \<^verbatim>\<open>url.Parse\<close> rejects a string that holds an ASCII control character, with a
  \<^verbatim>\<open>*url.Error\<close> of operation \<^verbatim>\<open>parse\<close> that carries the string, and parses
  \<^verbatim>\<open>http://example.com/\<close> into the scheme \<^verbatim>\<open>http\<close>, the host \<^verbatim>\<open>example.com\<close> and the
  path \<^verbatim>\<open>/\<close>.
\<close>

definition urlParse_example :: "string \<Rightarrow> url result" where
  "urlParse_example rawURL =
     (if list_ex (\<lambda>c. of_char c < (32 :: nat) \<or> of_char c = (127 :: nat)) rawURL
      then Error (UrlError ''parse'' rawURL
                    (LibraryError ''net/url: invalid control character in URL''))
      else if rawURL = ''http://example.com/''
      then Ok \<lparr>Scheme = ''http'', Host = ''example.com'', Path = ''/''\<rparr>
      else Error (LibraryError ''outside the example''))"

definition exampleRequest :: request where
  "exampleRequest =
     \<lparr>Method = ''GET'', URL = \<lparr>Scheme = [], Host = [], Path = ''/''\<rparr>,
      RequestURI = ''http://example.com/'', ReqHost = ''example.com'',
      Header = Map.empty, Body = []\<rparr>"

definition blockedResponse :: response where
  "blockedResponse =
     \<lparr>Status = [], StatusCode = 500, Proto = [], RespHeader = Map.empty, RespBody = []\<rparr>"

definition upstreamResponse :: response where
  "upstreamResponse =
     \<lparr>Status = ''200 OK'', StatusCode = 200, Proto = ''HTTP/1.1'', RespHeader = Map.empty,
      RespBody = []\<rparr>"

definition blockingHandler :: "64 word \<Rightarrow> request \<Rightarrow> response option \<times> request" where
  "blockingHandler session r =
     (if ReqHost r = ''blocked.example'' then (Some blockedResponse, r) else (None, r))"

definition exampleProxy :: Proxy where
  "exampleProxy =
     \<lparr>HandleRequest = Some blockingHandler, HttpClient_Do = (\<lambda>sent r. Ok upstreamResponse)\<rparr>"

definition exampleContext :: go_context where
  "exampleContext = [''session'' \<mapsto> Int64 7]"

text \<open>
  \<open>asciiStrings\<close> stands for \<^verbatim>\<open>strings.EqualFold\<close> and \<^verbatim>\<open>strings.TrimSpace\<close> on the
  strings the examples pass to them, which are ASCII: there the folding is that of the
  letters A to Z and the white space is tab, line feed, vertical tab, form feed,
  carriage return and space.
\<close>

definition asciiSpace :: "char \<Rightarrow> bool" where
  "asciiSpace c = (c \<in> set [CHR 0x09, CHR 0x0A, CHR 0x0B, CHR 0x0C, CHR 0x0D, CHR '' ''])"

definition asciiLower :: "char \<Rightarrow> char" where
  "asciiLower c =
     (if (65 :: nat) \<le> of_char c \<and> of_char c \<le> (90 :: nat)
      then char_of (of_char c + (32 :: nat)) else c)"

definition asciiStrings :: strings_lib where
  "asciiStrings =
     \<lparr>strings_EqualFold = (\<lambda>s t. map asciiLower s = map asciiLower t),
      strings_TrimSpace = (\<lambda>s. rev (dropWhile asciiSpace (rev (dropWhile asciiSpace s))))\<rparr>"

text \<open>
  An upgrade request that has the two headers the gate looks at and no
  \<^verbatim>\<open>Sec-WebSocket-Key\<close>, and connections that accept and answer everything.
\<close>

definition keylessUpgrade :: request where
  "keylessUpgrade =
     \<lparr>Method = ''GET'', URL = \<lparr>Scheme = [], Host = [], Path = ''/chat''\<rparr>,
      RequestURI = ''/chat'', ReqHost = ''example.com'',
      Header = [''Connection'' \<mapsto> [''keep-alive, Upgrade''], ''Upgrade'' \<mapsto> [''websocket'']],
      Body = []\<rparr>"

definition exampleIO :: "nat handshake_io" where
  "exampleIO =
     \<lparr>Response_Write = (\<lambda>resp n. (None, Suc n)),
      rand_Read = (\<lambda>buf n. (map (\<lambda>b. of_nat n) buf, Suc n)),
      Request_Write = (\<lambda>rq n. Suc n),
      http_ReadResponse = (\<lambda>n. (Ok upstreamResponse, Suc n))\<rparr>"


section \<open>Facts about the codec\<close>

subsection \<open>The XOR loop\<close>

lemma xorLoop_Ok:
  "key \<noteq> [] \<Longrightarrow> length enc = i + length rest \<Longrightarrow>
   xorLoop rest i key enc = Ok (take i enc @ xorFrom i key rest)"
proof (induction rest arbitrary: i enc)
  case Nil
  then show ?case by simp
next
  case (Cons b rest)
  let ?v = "b XOR key ! (i mod length key)"
  have len: "length (enc[i := ?v]) = Suc i + length rest"
    using Cons.prems by simp
  have "take (Suc i) (enc[i := ?v]) = take i enc @ [?v]"
    using Cons.prems by (simp add: take_Suc_conv_app_nth)
  with Cons.IH [OF Cons.prems(1) len] Cons.prems(1) show ?case
    by simp
qed

lemma xorEncrypt_Ok: "key \<noteq> [] \<Longrightarrow> xorEncrypt data key = Ok (xorFrom 0 key data)"
  by (simp add: xorEncrypt_def xorLoop_Ok)

lemma xorEncrypt_Nil: "xorEncrypt [] key = Ok []"
  by (simp add: xorEncrypt_def)

lemma xorEncrypt_Panic: "data \<noteq> [] \<Longrightarrow> xorEncrypt data [] = Panic IntegerDivideByZero"
  by (cases data) (simp_all add: xorEncrypt_def)

lemma length_xorFrom: "length (xorFrom i key data) = length data"
  by (induction data arbitrary: i) simp_all

lemma xorFrom_involution: "xorFrom i key (xorFrom i key data) = data"
  by (induction data arbitrary: i) (simp_all add: xor.assoc)

lemma xorFrom_zero_key:
  "key \<noteq> [] \<Longrightarrow> \<forall>k \<in> set key. k = 0 \<Longrightarrow> xorFrom i key data = data"
proof (induction data arbitrary: i)
  case Nil
  show ?case by simp
next
  case (Cons b data)
  from Cons.prems have "key ! (i mod length key) \<in> set key" by simp
  with Cons.prems have z: "key ! (i mod length key) = 0" by blast
  show ?case by (simp add: z Cons.IH [OF Cons.prems])
qed

subsection \<open>The read loops\<close>

lemma readBytes_append:
  "length xs = n \<Longrightarrow> readBytes n acc (xs @ rest) = (Ok (acc @ xs), rest)"
  by (induction xs arbitrary: n acc) auto

lemma readKey_4:
  "length k = 4 \<Longrightarrow> readKey 4 0 (replicate 4 0) (k @ rest) = (Ok k, rest)"
  by (auto simp: length_Suc_conv numeral_eq_Suc)

subsection \<open>Bits of the header bytes\<close>

lemma upper_bits_clear:
  fixes x :: "'a::len word"
  assumes "x < 2 ^ k" "k \<le> n"
  shows "\<not> bit x n"
proof -
  from assms(1) have "x AND mask k = x" by (rule less_mask_eq)
  then have "bit x n = bit (x AND mask k) n" by simp
  with assms(2) show ?thesis by (simp add: bit_simps)
qed

lemma bit_128: "bit (128 :: int) n = (n = 7)"
proof -
  have e: "(128 :: int) = 2 ^ 7" by simp
  show ?thesis unfolding e bit_exp_iff by auto
qed

lemma bit_64: "bit (64 :: int) n = (n = 6)"
proof -
  have e: "(64 :: int) = 2 ^ 6" by simp
  show ?thesis unfolding e bit_exp_iff by auto
qed

lemma bit_32: "bit (32 :: int) n = (n = 5)"
proof -
  have e: "(32 :: int) = 2 ^ 5" by simp
  show ?thesis unfolding e bit_exp_iff by auto
qed

lemma bit_16: "bit (16 :: int) n = (n = 4)"
proof -
  have e: "(16 :: int) = 2 ^ 4" by simp
  show ?thesis unfolding e bit_exp_iff by auto
qed

lemma bit_15: "bit (15 :: int) n = (n < 4)"
proof -
  have e: "(15 :: int) = mask 4" by (simp add: mask_eq_exp_minus_1)
  show ?thesis unfolding e bit_mask_iff by auto
qed

lemma bit_127: "bit (127 :: int) n = (n < 7)"
proof -
  have e: "(127 :: int) = mask 7" by (simp add: mask_eq_exp_minus_1)
  show ?thesis unfolding e bit_mask_iff by auto
qed

lemmas byte_bits = bit_128 bit_64 bit_32 bit_16 bit_15 bit_127

lemma first_op:
  assumes "op < 16"
  shows "ucast ((((((if a then 128 else 0) OR (if b then 64 else 0)) OR (if c then 32 else 0)) OR (if d then 16 else 0)) OR (ucast (op :: 64 word) :: byte)) AND 15) = op"
proof (rule bit_word_eqI)
  fix n assume "n < LENGTH(64)"
  have hi: "\<not> bit op k" if "4 \<le> k" for k
    using upper_bits_clear [of op 4 k] assms that by simp
  show "bit (ucast ((((((if a then 128 else 0) OR (if b then 64 else 0)) OR (if c then 32 else 0)) OR (if d then 16 else 0)) OR (ucast (op :: 64 word) :: byte)) AND 15) :: 64 word) n = bit op n"
    using hi [of n] by (cases "n < 4") (auto simp: bit_simps byte_bits)
qed

lemma first_flags:
  fixes a b c d :: bool
  assumes "op < 16"
  defines "fb \<equiv> ((((if a then 128 else 0) OR (if b then 64 else 0)) OR (if c then 32 else 0)) OR (if d then 16 else 0)) OR (ucast (op :: 64 word) :: byte)"
  shows "(fb AND 128 \<noteq> 0) = a" "(fb AND 64 \<noteq> 0) = b" "(fb AND 32 \<noteq> 0) = c" "(fb AND 16 \<noteq> 0) = d"
proof -
  have hi: "\<not> bit op k" if "4 \<le> k" for k
    using upper_bits_clear [of op 4 k] assms that by simp
  have t: "(x AND 128 \<noteq> 0) = bit x 7" "(x AND 64 \<noteq> 0) = bit x 6"
    "(x AND 32 \<noteq> 0) = bit x 5" "(x AND 16 \<noteq> 0) = bit x 4" for x :: byte
    using and_exp_eq_0_iff_not_bit [of x 7] and_exp_eq_0_iff_not_bit [of x 6]
      and_exp_eq_0_iff_not_bit [of x 5] and_exp_eq_0_iff_not_bit [of x 4] by simp_all
  show "(fb AND 128 \<noteq> 0) = a" "(fb AND 64 \<noteq> 0) = b" "(fb AND 32 \<noteq> 0) = c" "(fb AND 16 \<noteq> 0) = d"
    unfolding t fb_def by (simp_all add: bit_simps byte_bits hi)
qed

lemma len7:
  assumes "(pl :: 64 word) < 126"
  shows "(ucast (((if m then 128 else 0) OR (ucast pl :: byte)) AND 127) :: 64 word) = pl"
    and "(((if m then 128 else 0) OR (ucast pl :: byte)) AND 128 \<noteq> 0) = m"
proof -
  from assms have "pl < 2 ^ 7" by (simp add: order_less_trans [of pl 126 128])
  then have hi: "\<not> bit pl k" if "7 \<le> k" for k
    using upper_bits_clear [of pl 7 k] that by simp
  show "(ucast (((if m then 128 else 0) OR (ucast pl :: byte)) AND 127) :: 64 word) = pl"
  proof (rule bit_word_eqI)
    fix n assume "n < LENGTH(64)"
    show "bit (ucast (((if m then 128 else 0) OR (ucast pl :: byte)) AND 127) :: 64 word) n = bit pl n"
      using hi [of n] by (cases "n < 7") (auto simp: bit_simps byte_bits)
  qed
  have "(x AND 128 \<noteq> 0) = bit x 7" for x :: byte
    using and_exp_eq_0_iff_not_bit [of x 7] by simp
  then show "(((if m then 128 else 0) OR (ucast pl :: byte)) AND 128 \<noteq> 0) = m"
    by (simp add: bit_simps byte_bits hi)
qed

lemma tag126: "(ucast (((if m then 128 else 0) OR (126 :: byte)) AND 127) :: 64 word) = 126"
  "(((if m then 128 else 0) OR (126 :: byte)) AND 128 \<noteq> 0) = m"
  by (cases m; simp)+

lemma tag127: "(ucast (((if m then 128 else 0) OR (127 :: byte)) AND 127) :: 64 word) = 127"
  "(((if m then 128 else 0) OR (127 :: byte)) AND 128 \<noteq> 0) = m"
  by (cases m; simp)+

lemma len16:
  assumes "(pl :: 64 word) < 65536"
  shows "(ucast (Uint16 ([] @ [ucast (drop_bit 8 pl), ucast pl])) :: 64 word) = pl"
proof (rule bit_word_eqI)
  fix n assume "n < LENGTH(64)"
  from assms have "pl < 2 ^ 16" by simp
  then have hi: "\<not> bit pl k" if "16 \<le> k" for k
    using upper_bits_clear [of pl 16 k] that by simp
  show "bit (ucast (Uint16 ([] @ [ucast (drop_bit 8 pl), ucast pl])) :: 64 word) n = bit pl n"
  proof (cases "n < 16")
    case True
    then show ?thesis by (auto simp: Uint16_def bit_simps)
  next
    case False
    with hi [of n] show ?thesis by (simp add: Uint16_def bit_simps)
  qed
qed

lemma len64:
  "Uint64 ([] @ [ucast (drop_bit 56 pl), ucast (drop_bit 48 pl), ucast (drop_bit 40 pl),
     ucast (drop_bit 32 pl), ucast (drop_bit 24 pl), ucast (drop_bit 16 pl),
     ucast (drop_bit 8 pl), ucast pl]) = pl"
proof (rule bit_word_eqI)
  fix n assume "n < LENGTH(64)"
  then consider "n < 8" | "8 \<le> n" "n < 16" | "16 \<le> n" "n < 24" | "24 \<le> n" "n < 32"
    | "32 \<le> n" "n < 40" | "40 \<le> n" "n < 48" | "48 \<le> n" "n < 56" | "56 \<le> n" "n < 64"
    by fastforce
  then show "bit (Uint64 ([] @ [ucast (drop_bit 56 pl), ucast (drop_bit 48 pl), ucast (drop_bit 40 pl),
     ucast (drop_bit 32 pl), ucast (drop_bit 24 pl), ucast (drop_bit 16 pl),
     ucast (drop_bit 8 pl), ucast pl])) n = bit pl n"
    by cases (auto simp add: Uint64_def bit_simps)
qed

subsection \<open>Encoding and decoding a frame\<close>

lemma Write_header:
  "Write f w =
     (if MaskBit f \<and> length (Key f) \<noteq> 4 then (Error ErrorMaskKeyLength, w)
      else case xorEncrypt (Data f) (Key f) of
             Panic p \<Rightarrow> (Panic p, w)
           | Error e \<Rightarrow> (Error e, w)
           | Ok encryptedData \<Rightarrow>
               (case sink_write w (firstByteOf f # lengthBytesOf f @ keyBytesOf f @ encryptedData) of
                  (True, w') \<Rightarrow> (Error ErrorWritingHeader, w')
                | (False, w') \<Rightarrow> (Ok (), w')))"
  by (simp add: Write_def Let_def firstByteOf_def lengthBytesOf_def keyBytesOf_def maskFlag_def
        finalBit_def rsv1Bit_def rsv2Bit_def rsv3Bit_def maskBit_def split: result.splits)

lemma lengthBytes_decode:
  obtains b1 ext where "lengthBytesOf f = b1 # ext" "(b1 AND 128 \<noteq> 0) = MaskBit f"
    "\<And>rest. readLength (ucast (b1 AND 127)) (ext @ rest) = (Ok (PayloadLength f), rest)"
proof -
  let ?pl = "PayloadLength f"
  consider (short) "?pl < 126" | (medium) "\<not> ?pl < 126" "?pl < 65536" | (long) "\<not> ?pl < 126" "\<not> ?pl < 65536"
    by blast
  then show ?thesis
  proof cases
    case short
    then have ne: "?pl \<noteq> 126" "?pl \<noteq> 127" by auto
    show ?thesis
    proof (rule that [of "maskFlag f OR ucast ?pl" "[]"])
      show "lengthBytesOf f = [maskFlag f OR ucast ?pl]"
        using short by (simp add: lengthBytesOf_def)
      show "((maskFlag f OR ucast ?pl) AND 128 \<noteq> 0) = MaskBit f"
        unfolding maskFlag_def by (rule len7(2) [OF short])
      show "readLength (ucast ((maskFlag f OR ucast ?pl) AND 127)) ([] @ rest) = (Ok ?pl, rest)" for rest
        unfolding maskFlag_def len7(1) [OF short] using ne by (simp add: readLength_def ret_def)
    qed
  next
    case medium
    show ?thesis
    proof (rule that [of "maskFlag f OR 126" "[ucast (drop_bit 8 ?pl), ucast ?pl]"])
      show "lengthBytesOf f = [maskFlag f OR 126, ucast (drop_bit 8 ?pl), ucast ?pl]"
        using medium by (simp add: lengthBytesOf_def)
      show "((maskFlag f OR 126) AND 128 \<noteq> 0) = MaskBit f"
        unfolding maskFlag_def by (rule tag126(2))
      show "readLength (ucast ((maskFlag f OR 126) AND 127)) ([ucast (drop_bit 8 ?pl), ucast ?pl] @ rest) = (Ok ?pl, rest)" for rest
        unfolding maskFlag_def tag126(1) using len16 [OF medium(2)]
        by (simp add: readLength_def ret_def andThen_def)
    qed
  next
    case long
    show ?thesis
    proof (rule that [of "maskFlag f OR 127" "[ucast (drop_bit 56 ?pl), ucast (drop_bit 48 ?pl),
         ucast (drop_bit 40 ?pl), ucast (drop_bit 32 ?pl), ucast (drop_bit 24 ?pl),
         ucast (drop_bit 16 ?pl), ucast (drop_bit 8 ?pl), ucast ?pl]"])
      show "lengthBytesOf f = [maskFlag f OR 127, ucast (drop_bit 56 ?pl), ucast (drop_bit 48 ?pl),
         ucast (drop_bit 40 ?pl), ucast (drop_bit 32 ?pl), ucast (drop_bit 24 ?pl),
         ucast (drop_bit 16 ?pl), ucast (drop_bit 8 ?pl), ucast ?pl]"
        using long by (simp add: lengthBytesOf_def)
      show "((maskFlag f OR 127) AND 128 \<noteq> 0) = MaskBit f"
        unfolding maskFlag_def by (rule tag127(2))
      show "readLength (ucast ((maskFlag f OR 127) AND 127)) ([ucast (drop_bit 56 ?pl), ucast (drop_bit 48 ?pl),
         ucast (drop_bit 40 ?pl), ucast (drop_bit 32 ?pl), ucast (drop_bit 24 ?pl),
         ucast (drop_bit 16 ?pl), ucast (drop_bit 8 ?pl), ucast ?pl] @ rest) = (Ok ?pl, rest)" for rest
        unfolding maskFlag_def tag127(1) using len64 [of ?pl]
        by (simp add: readLength_def ret_def andThen_def numeral_eq_Suc)
    qed
  qed
qed

lemma decode_frame:
  assumes op: "OpCode f < 16"
    and len: "length enc = unat (PayloadLength f)"
    and key: "MaskBit f \<longrightarrow> length (Key f) = 4"
  shows "ReadWebsocketFragment (firstByteOf f # lengthBytesOf f @ keyBytesOf f @ enc) =
    (let key = (if MaskBit f then Key f else replicate 4 0) in
     case xorEncrypt enc key of
       Ok plain \<Rightarrow> (Ok (f\<lparr>Key := key, Data := plain\<rparr>), [])
     | Error e \<Rightarrow> (Error e, [])
     | Panic p \<Rightarrow> (Panic p, []))"
proof -
  obtain b1 ext where lb: "lengthBytesOf f = b1 # ext" and mb: "(b1 AND 128 \<noteq> 0) = MaskBit f"
    and rl: "\<And>rest. readLength (ucast (b1 AND 127)) (ext @ rest) = (Ok (PayloadLength f), rest)"
    by (rule lengthBytes_decode [of f]) blast
  note fl = first_flags [OF op, of "FinBit f" "Rsv1 f" "Rsv2 f" "Rsv3 f"]
  note fo = first_op [OF op, of "FinBit f" "Rsv1 f" "Rsv2 f" "Rsv3 f"]
  have rk: "(if MaskBit f then readKey 4 0 (replicate 4 0) else ret (Ok (replicate 4 0))) (keyBytesOf f @ enc)
      = (Ok (if MaskBit f then Key f else replicate 4 0), enc)"
    using key readKey_4 [of "Key f" enc] by (simp add: keyBytesOf_def ret_def)
  have rd: "readBytes (unat (PayloadLength f)) [] enc = (Ok enc, [])"
    using readBytes_append [of enc "unat (PayloadLength f)" "[]" "[]"] len by simp
  show ?thesis
    unfolding ReadWebsocketFragment_def lb
    by (simp add: andThen_def Let_def ret_def firstByteOf_def [symmetric] fl [folded firstByteOf_def]
        fo [folded firstByteOf_def] finalBit_def rsv1Bit_def rsv2Bit_def rsv3Bit_def maskBit_def
        mb rl rk rd split: result.splits)
qed

subsection \<open>Evaluation on numerals\<close>

lemma readBytes_numeral:
  "readBytes (numeral k) data b =
     (case ReadByte b of
        (Ok c, b') \<Rightarrow> readBytes (pred_numeral k) (data @ [c]) b'
      | (Error e, b') \<Rightarrow> (Error e, b')
      | (Panic p, b') \<Rightarrow> (Panic p, b'))"
  by (simp add: numeral_eq_Suc)

lemma readKey_numeral:
  "readKey (numeral k) i key b =
     (case ReadByte b of
        (Ok c, b') \<Rightarrow> readKey (pred_numeral k) (i + 1) (key[i := c]) b'
      | (Error e, b') \<Rightarrow> (Error e, b')
      | (Panic p, b') \<Rightarrow> (Panic p, b'))"
  by (simp add: numeral_eq_Suc)

lemma replicate_numeral_Cons: "replicate (numeral k) x = x # replicate (pred_numeral k) x"
  by (simp add: numeral_eq_Suc)

lemmas codec_eval = Write_header firstByteOf_def lengthBytesOf_def maskFlag_def
  keyBytesOf_def xorEncrypt_def sink_write_def emptySink_def ReadWebsocketFragment_def
  andThen_def ret_def readLength_def finalBit_def rsv1Bit_def rsv2Bit_def rsv3Bit_def
  maskBit_def readBytes_numeral readKey_numeral replicate_numeral_Cons


subsection \<open>The repository's test vectors\<close>

text \<open>
  The cases of \<^verbatim>\<open>websocket_test.go\<close>: the frame \<^verbatim>\<open>TestReadWebsocketFragment\<close> decodes,
  and the same fragment written.
\<close>

lemma test_ReadWebsocketFragment:
  "ReadWebsocketFragment
     [0x82, 0x8B, 0x1A, 0x2B, 0x3C, 0x4D,
      0x72, 0x4E, 0x50, 0x21, 0x75, 0x0B, 0x4B, 0x22, 0x68, 0x47, 0x50] =
   (Ok \<lparr>FinBit = True, Rsv1 = False, Rsv2 = False, Rsv3 = False, OpCode = 2, MaskBit = True,
        PayloadLength = 11, Key = [0x1A, 0x2B, 0x3C, 0x4D],
        Data = [0x68, 0x65, 0x6C, 0x6C, 0x6F, 0x20, 0x77, 0x6F, 0x72, 0x6C, 0x6C]\<rparr>, [])"
  by (simp add: codec_eval)

lemma test_WriteWebsocketFragment:
  "Write \<lparr>FinBit = True, Rsv1 = False, Rsv2 = False, Rsv3 = False, OpCode = 2, MaskBit = True,
          PayloadLength = 11, Key = [0x1A, 0x2B, 0x3C, 0x4D],
          Data = [0x68, 0x65, 0x6C, 0x6C, 0x6F, 0x20, 0x77, 0x6F, 0x72, 0x6C, 0x6C]\<rparr> emptySink =
   (Ok (), \<lparr>written = [0x82, 0x8B, 0x1A, 0x2B, 0x3C, 0x4D,
                        0x72, 0x4E, 0x50, 0x21, 0x75, 0x0B, 0x4B, 0x22, 0x68, 0x47, 0x50],
           room = None\<rparr>)"
  by (simp add: codec_eval)

section \<open>Facts about the accept key\<close>

text \<open>
  The simplifier computes on word numerals without reducing them; the rules below make
  it cut every intermediate value to 32 bits.
\<close>

lemma norm32: "(x :: uint32) AND 4294967295 = x"
proof -
  have e: "(4294967295 :: uint32) = - 1" by simp
  show ?thesis unfolding e by simp
qed

lemma schedule_numeral:
  "schedule (numeral k) w =
     hd w # schedule (pred_numeral k)
       (tl w @ [rotl 1 (w ! 13 XOR w ! 8 XOR w ! 2 XOR w ! 0) AND 4294967295])"
  by (simp add: numeral_eq_Suc norm32)

lemma rounds_Cons:
  "rounds t (w # ws) (a, b, c, d, e) =
     rounds (t + 1) ws
       ((rotl 5 a + sha1_f t b c d + e + sha1_k t + w) AND 4294967295, a,
        rotl 30 b AND 4294967295, c, d)"
  by (simp add: norm32)

lemma compress_tuple:
  "compress (h0, h1, h2, h3, h4) block =
     (case rounds 0 (schedule 80 (blockWords block)) (h0, h1, h2, h3, h4) of
        (a, b, c, d, e) \<Rightarrow>
          ((h0 + a) AND 4294967295, (h1 + b) AND 4294967295, (h2 + c) AND 4294967295,
           (h3 + d) AND 4294967295, (h4 + e) AND 4294967295))"
  by (simp add: compress_def norm32)

lemma blocks_numeral:
  "blocks (numeral k) h msg = blocks (pred_numeral k) (compress h (take 64 msg)) (drop 64 msg)"
  by (simp add: numeral_eq_Suc)

lemmas sha1_eval = schedule_numeral blocks_numeral replicate_numeral_Cons bytes_def sha1_pad_def
  be64_bytes_def be32_def rotl_def sha1_def compress_tuple sha1_f_def sha1_k_def be32_bytes_def
  rounds.simps(1) rounds_Cons

lemma sha1_rfc6455_sample:
  "sha1 (bytes ''dGhlIHNhbXBsZSBub25jZQ==258EAFA5-E914-47DA-95CA-C5AB0DC85B11'') =
     [0xB3, 0x7A, 0x4F, 0x2C, 0xC0, 0x62, 0x4F, 0x16, 0x90, 0xF6,
      0x46, 0x06, 0xCF, 0x38, 0x59, 0x45, 0xB2, 0xBE, 0xC4, 0xEA]"
  by (simp del: rounds.simps add: sha1_eval)

lemma base64_rfc6455_sample:
  "EncodeToString [0xB3, 0x7A, 0x4F, 0x2C, 0xC0, 0x62, 0x4F, 0x16, 0x90, 0xF6,
      0x46, 0x06, 0xCF, 0x38, 0x59, 0x45, 0xB2, 0xBE, 0xC4, 0xEA] =
     ''s3pPLMBiTxaQ9kYGzzhZRbK+xOo=''"
  by (simp add: encodeChar_def encodeStd_def)

text \<open>
  The models of the two library functions give the test vectors of their standards: the
  digest of \<^verbatim>\<open>abc\<close> of FIPS 180, and the encodings of RFC 4648, section 10.
\<close>

lemma sha1_abc:
  "sha1 (bytes ''abc'') =
     [0xA9, 0x99, 0x3E, 0x36, 0x47, 0x06, 0x81, 0x6A, 0xBA, 0x3E,
      0x25, 0x71, 0x78, 0x50, 0xC2, 0x6C, 0x9C, 0xD0, 0xD8, 0x9D]"
  by (simp del: rounds.simps add: sha1_eval)

lemma EncodeToString_rfc4648:
  "EncodeToString (bytes ''foobar'') = ''Zm9vYmFy''"
  "EncodeToString (bytes ''fooba'') = ''Zm9vYmE=''"
  "EncodeToString (bytes ''foob'') = ''Zm9vYg==''"
  "EncodeToString (bytes []) = []"
  by (simp_all add: bytes_def encodeChar_def encodeStd_def)

section \<open>Claims about the codec\<close>

text \<open>
  What the codec does achieve: a masked fragment whose opcode fits the four opcode bits,
  with a four-byte key and \<open>PayloadLength\<close> bytes of data, is written and read back
  unchanged.
\<close>

lemma masked_roundtrip:
  assumes op: "OpCode f < 16"
    and len: "length (Data f) = unat (PayloadLength f)"
    and masked: "MaskBit f"
    and key: "length (Key f) = 4"
  shows "fst (Write f emptySink) = Ok () \<and>
         ReadWebsocketFragment (written (snd (Write f emptySink))) = (Ok f, [])"
proof -
  let ?enc = "xorFrom 0 (Key f) (Data f)"
  from key have ne: "Key f \<noteq> []" by auto
  then have xor: "xorEncrypt (Data f) (Key f) = Ok ?enc" by (rule xorEncrypt_Ok)
  have wr: "Write f emptySink =
      (Ok (), \<lparr>written = firstByteOf f # lengthBytesOf f @ keyBytesOf f @ ?enc, room = None\<rparr>)"
    unfolding Write_header using key by (simp add: xor sink_write_def emptySink_def)
  have "length ?enc = unat (PayloadLength f)"
    using len by (simp add: length_xorFrom)
  from decode_frame [OF op this] key masked
  have rd: "ReadWebsocketFragment (firstByteOf f # lengthBytesOf f @ keyBytesOf f @ ?enc) =
      (case xorEncrypt ?enc (Key f) of
         Ok plain \<Rightarrow> (Ok (f\<lparr>Key := Key f, Data := plain\<rparr>), [])
       | Error e \<Rightarrow> (Error e, [])
       | Panic p \<Rightarrow> (Panic p, []))"
    by (simp add: Let_def)
  have unx: "xorEncrypt ?enc (Key f) = Ok (Data f)"
    using ne by (simp add: xorEncrypt_Ok xorFrom_involution)
  show ?thesis by (simp add: wr rd unx)
qed

text \<open>
  C1 does not hold of the code. The hello frame with \<open>MaskBit\<close> cleared and its key
  left in place meets the conditions of the claim; \<^verbatim>\<open>Write\<close> sends it without mask bit
  and key but XORed with the key, and \<^verbatim>\<open>ReadWebsocketFragment\<close> returns the XORed
  bytes as \<open>Data\<close>, not the data of the fragment. An unmasked fragment with no key at
  all and two bytes of data meets them too, and \<^verbatim>\<open>Write\<close> panics on it: there are no
  bytes to decode.
\<close>

theorem decode_encode_unmasked_differs:
  "length (Data (helloFrame\<lparr>MaskBit := False\<rparr>)) =
     unat (PayloadLength (helloFrame\<lparr>MaskBit := False\<rparr>)) \<and>
   MaskBit (helloFrame\<lparr>MaskBit := False\<rparr>) = False \<and>
   fst (Write (helloFrame\<lparr>MaskBit := False\<rparr>) emptySink) = Ok () \<and>
   ReadWebsocketFragment (written (snd (Write (helloFrame\<lparr>MaskBit := False\<rparr>) emptySink))) =
     (Ok (helloFrame\<lparr>MaskBit := False, Key := [0, 0, 0, 0],
            Data := [0x72, 0x4E, 0x50, 0x21, 0x75, 0x0B, 0x4B, 0x22, 0x68, 0x47, 0x58]\<rparr>), []) \<and>
   Data (helloFrame\<lparr>MaskBit := False\<rparr>) =
     [0x68, 0x65, 0x6C, 0x6C, 0x6F, 0x20, 0x77, 0x6F, 0x72, 0x6C, 0x64] \<and>
   length (Data (plainFrame\<lparr>Key := []\<rparr>)) = unat (PayloadLength (plainFrame\<lparr>Key := []\<rparr>)) \<and>
   MaskBit (plainFrame\<lparr>Key := []\<rparr>) = False \<and>
   Write (plainFrame\<lparr>Key := []\<rparr>) emptySink = (Panic IntegerDivideByZero, emptySink)"
proof -
  have w: "Write (helloFrame\<lparr>MaskBit := False\<rparr>) emptySink =
      (Ok (), \<lparr>written = [0x82, 0x0B,
                           0x72, 0x4E, 0x50, 0x21, 0x75, 0x0B, 0x4B, 0x22, 0x68, 0x47, 0x58],
              room = None\<rparr>)"
    by (simp add: helloFrame_def codec_eval)
  have r: "ReadWebsocketFragment
      [0x82, 0x0B, 0x72, 0x4E, 0x50, 0x21, 0x75, 0x0B, 0x4B, 0x22, 0x68, 0x47, 0x58] =
      (Ok (helloFrame\<lparr>MaskBit := False, Key := [0, 0, 0, 0],
             Data := [0x72, 0x4E, 0x50, 0x21, 0x75, 0x0B, 0x4B, 0x22, 0x68, 0x47, 0x58]\<rparr>), [])"
    by (simp add: helloFrame_def codec_eval)
  have p: "Write (plainFrame\<lparr>Key := []\<rparr>) emptySink = (Panic IntegerDivideByZero, emptySink)"
    by (simp add: plainFrame_def Write_header xorEncrypt_Panic)
  show ?thesis
    by (simp add: w r p) (simp add: helloFrame_def plainFrame_def)
qed

text \<open>
  C2. A fragment with \<open>MaskBit\<close> set and a key that is not four bytes long: \<^verbatim>\<open>Write\<close>
  returns \<^verbatim>\<open>ErrorMaskKeyLength\<close> and the sink is as it was, whatever sink it is.
\<close>

theorem Write_mask_key_length:
  "MaskBit f \<Longrightarrow> length (Key f) \<noteq> 4 \<Longrightarrow> Write f w = (Error ErrorMaskKeyLength, w)"
  by (simp add: Write_header)

theorem Write_mask_key_length_witness:
  "MaskBit (helloFrame\<lparr>Key := [0x1A, 0x2B, 0x3C, 0x4D, 0x00]\<rparr>) \<and>
   length (Key (helloFrame\<lparr>Key := [0x1A, 0x2B, 0x3C, 0x4D, 0x00]\<rparr>)) \<noteq> 4 \<and>
   Write (helloFrame\<lparr>Key := [0x1A, 0x2B, 0x3C, 0x4D, 0x00]\<rparr>) emptySink =
     (Error ErrorMaskKeyLength, emptySink)"
proof -
  have "MaskBit (helloFrame\<lparr>Key := [0x1A, 0x2B, 0x3C, 0x4D, 0x00]\<rparr>)"
    and "length (Key (helloFrame\<lparr>Key := [0x1A, 0x2B, 0x3C, 0x4D, 0x00]\<rparr>)) \<noteq> 4"
    by (simp_all add: helloFrame_def)
  then show ?thesis using Write_mask_key_length by blast
qed

text \<open>
  C3 does not hold of the code. A handler that clears \<open>MaskBit\<close> on the decoded hello
  frame leaves the client's key in \<open>Key\<close>; \<^verbatim>\<open>Write\<close> then sends a header without mask
  bit and without key, followed by the data XORed with that key, not by the data.
\<close>

theorem Write_unmasked_not_verbatim:
  "Write (helloFrame\<lparr>MaskBit := False\<rparr>) emptySink =
     (Ok (), \<lparr>written = [0x82, 0x0B,
                          0x72, 0x4E, 0x50, 0x21, 0x75, 0x0B, 0x4B, 0x22, 0x68, 0x47, 0x58],
             room = None\<rparr>) \<and>
   Data (helloFrame\<lparr>MaskBit := False\<rparr>) =
     [0x68, 0x65, 0x6C, 0x6C, 0x6F, 0x20, 0x77, 0x6F, 0x72, 0x6C, 0x64]"
  by (simp add: helloFrame_def Write_header firstByteOf_def lengthBytesOf_def maskFlag_def
      keyBytesOf_def xorEncrypt_def sink_write_def emptySink_def)

text \<open>
  C4. Whatever the other fields are (as long as the frame is written at all), the
  payload lengths 125, 126, 65535 and 65536 give: the length in the second byte; 126 and
  the two bytes \<open>00 7E\<close>; 126 and the two bytes \<open>FF FF\<close>; 127 and the eight bytes
  \<open>00 00 00 00 00 01 00 00\<close>. The key and the payload follow at once.
\<close>

theorem Write_length_encoding:
  assumes "xorEncrypt (Data f) (Key f) = Ok enc"
    and "MaskBit f \<longrightarrow> length (Key f) = 4"
  shows
    "Write (f\<lparr>PayloadLength := 125\<rparr>) emptySink =
       (Ok (), \<lparr>written = firstByteOf f # [maskFlag f OR 125] @ keyBytesOf f @ enc,
               room = None\<rparr>) \<and>
     Write (f\<lparr>PayloadLength := 126\<rparr>) emptySink =
       (Ok (), \<lparr>written = firstByteOf f # [maskFlag f OR 126, 0x00, 0x7E] @ keyBytesOf f @ enc,
               room = None\<rparr>) \<and>
     Write (f\<lparr>PayloadLength := 65535\<rparr>) emptySink =
       (Ok (), \<lparr>written = firstByteOf f # [maskFlag f OR 126, 0xFF, 0xFF] @ keyBytesOf f @ enc,
               room = None\<rparr>) \<and>
     Write (f\<lparr>PayloadLength := 65536\<rparr>) emptySink =
       (Ok (), \<lparr>written =
                 firstByteOf f # [maskFlag f OR 127, 0, 0, 0, 0, 0, 1, 0, 0] @ keyBytesOf f @ enc,
               room = None\<rparr>)"
  using assms
  by (simp add: Write_header firstByteOf_def lengthBytesOf_def maskFlag_def keyBytesOf_def
      sink_write_def emptySink_def)

theorem Write_length_encoding_witness:
  "xorEncrypt (Data helloFrame) (Key helloFrame) =
     Ok [0x72, 0x4E, 0x50, 0x21, 0x75, 0x0B, 0x4B, 0x22, 0x68, 0x47, 0x58] \<and>
   length (Key helloFrame) = 4 \<and>
   written (snd (Write (helloFrame\<lparr>PayloadLength := 125\<rparr>) emptySink)) =
     [0x82, 0xFD, 0x1A, 0x2B, 0x3C, 0x4D,
      0x72, 0x4E, 0x50, 0x21, 0x75, 0x0B, 0x4B, 0x22, 0x68, 0x47, 0x58] \<and>
   written (snd (Write (helloFrame\<lparr>PayloadLength := 126\<rparr>) emptySink)) =
     [0x82, 0xFE, 0x00, 0x7E, 0x1A, 0x2B, 0x3C, 0x4D,
      0x72, 0x4E, 0x50, 0x21, 0x75, 0x0B, 0x4B, 0x22, 0x68, 0x47, 0x58] \<and>
   written (snd (Write (helloFrame\<lparr>PayloadLength := 65535\<rparr>) emptySink)) =
     [0x82, 0xFE, 0xFF, 0xFF, 0x1A, 0x2B, 0x3C, 0x4D,
      0x72, 0x4E, 0x50, 0x21, 0x75, 0x0B, 0x4B, 0x22, 0x68, 0x47, 0x58] \<and>
   written (snd (Write (helloFrame\<lparr>PayloadLength := 65536\<rparr>) emptySink)) =
     [0x82, 0xFF, 0x00, 0x00, 0x00, 0x00, 0x00, 0x01, 0x00, 0x00, 0x1A, 0x2B, 0x3C, 0x4D,
      0x72, 0x4E, 0x50, 0x21, 0x75, 0x0B, 0x4B, 0x22, 0x68, 0x47, 0x58]"
proof -
  have x: "xorEncrypt (Data helloFrame) (Key helloFrame) =
      Ok [0x72, 0x4E, 0x50, 0x21, 0x75, 0x0B, 0x4B, 0x22, 0x68, 0x47, 0x58]"
    by (simp add: helloFrame_def xorEncrypt_def)
  have k: "MaskBit helloFrame \<longrightarrow> length (Key helloFrame) = 4"
    by (simp add: helloFrame_def)
  have b: "firstByteOf helloFrame = 0x82" "maskFlag helloFrame = 0x80"
    "keyBytesOf helloFrame = [0x1A, 0x2B, 0x3C, 0x4D]" "length (Key helloFrame) = 4"
    by (simp_all add: helloFrame_def firstByteOf_def maskFlag_def keyBytesOf_def)
  show ?thesis
    using Write_length_encoding [OF x k] by (simp add: b x)
qed

text \<open>
  C9. An unmasked fragment with an empty key and data to send: \<^verbatim>\<open>Write\<close> neither
  returns \<^verbatim>\<open>nil\<close> nor an error, it panics on the remainder by the key length 0, and
  the sink has received nothing.
\<close>

theorem Write_empty_key_panics:
  "\<not> MaskBit f \<Longrightarrow> Key f = [] \<Longrightarrow> Data f \<noteq> [] \<Longrightarrow>
   Write f w = (Panic IntegerDivideByZero, w)"
  by (simp add: Write_header xorEncrypt_Panic)

theorem Write_empty_key_panics_witness:
  "\<not> MaskBit (plainFrame\<lparr>Key := []\<rparr>) \<and> Key (plainFrame\<lparr>Key := []\<rparr>) = [] \<and>
   Data (plainFrame\<lparr>Key := []\<rparr>) \<noteq> [] \<and>
   Write (plainFrame\<lparr>Key := []\<rparr>) emptySink = (Panic IntegerDivideByZero, emptySink)"
proof -
  have "\<not> MaskBit (plainFrame\<lparr>Key := []\<rparr>)" and "Key (plainFrame\<lparr>Key := []\<rparr>) = []"
    and "Data (plainFrame\<lparr>Key := []\<rparr>) \<noteq> []"
    by (simp_all add: plainFrame_def)
  then show ?thesis using Write_empty_key_panics by blast
qed


section \<open>Claims about the certificate cache\<close>

text \<open>
  C5. \<^verbatim>\<open>getCert\<close> memoizes per hostname.
  \<^item> A host the cache holds is answered from the cache: the certificate stored for it is
    returned, and cache, clock and entropy are as they were, whatever the library would
    answer and whatever CA is passed: nothing is minted.
  \<^item> A host the cache does not hold, for which \<^verbatim>\<open>GenerateCert\<close> succeeds, gets the
    minted certificate, which is stored under that host and under no other; any later
    call for the host on that cache returns this same certificate (so the same serial
    number) without minting.
  \<^item> Whatever a call returns, the entries of all other hosts are as before.
  \<^item> When the host is not held and \<^verbatim>\<open>GenerateCert\<close> fails, that error is returned and the
    cache is unchanged.
\<close>

theorem getCert_memoizes:
  "(certs = Some m \<and> m host = Some val \<longrightarrow>
      getCert lib certs ca host w = (Ok val, certs, w)) \<and>
   (certs = Some m \<and> m host = None \<and> GenerateCert lib ca host w = (Ok cert, w') \<longrightarrow>
      getCert lib certs ca host w = (Ok cert, Some (m(host \<mapsto> cert)), w') \<and>
      getCert libB (Some (m(host \<mapsto> cert))) caB host wB =
        (Ok cert, Some (m(host \<mapsto> cert)), wB)) \<and>
   (getCert lib certs ca host w = (Ok cert, certs', w') \<longrightarrow>
      cache_lookup certs' host = Some cert \<and>
      getCert libB certs' caB host wB = (Ok cert, certs', wB)) \<and>
   (getCert lib certs ca host w = (r, certs', w') \<and> other \<noteq> host \<longrightarrow>
      cache_lookup certs' other = cache_lookup certs other) \<and>
   (cache_lookup certs host = None \<and> GenerateCert lib ca host w = (Error err, w') \<longrightarrow>
      getCert lib certs ca host w = (Error err, certs, w'))"
proof (intro conjI impI)
  assume "certs = Some m \<and> m host = Some val"
  then show "getCert lib certs ca host w = (Ok val, certs, w)"
    by (simp add: getCert_def cache_lookup_def)
next
  assume "certs = Some m \<and> m host = None \<and> GenerateCert lib ca host w = (Ok cert, w')"
  then show "getCert lib certs ca host w = (Ok cert, Some (m(host \<mapsto> cert)), w')"
    by (simp add: getCert_def cache_lookup_def)
next
  show "getCert libB (Some (m(host \<mapsto> cert))) caB host wB =
      (Ok cert, Some (m(host \<mapsto> cert)), wB)"
    by (simp add: getCert_def cache_lookup_def)
next
  assume first: "getCert lib certs ca host w = (Ok cert, certs', w')"
  show held: "cache_lookup certs' host = Some cert"
  proof (cases "cache_lookup certs host")
    case (Some val)
    with first show ?thesis by (simp add: getCert_def)
  next
    case None
    with first show ?thesis
      by (auto simp: getCert_def cache_lookup_def split: prod.splits result.splits option.splits)
  qed
  then show "getCert libB certs' caB host wB = (Ok cert, certs', wB)"
    by (simp add: getCert_def)
next
  assume "getCert lib certs ca host w = (r, certs', w') \<and> other \<noteq> host"
  then show "cache_lookup certs' other = cache_lookup certs other"
    by (auto simp: getCert_def cache_lookup_def split: prod.splits result.splits option.splits)
next
  assume "cache_lookup certs host = None \<and> GenerateCert lib ca host w = (Error err, w')"
  then show "getCert lib certs ca host w = (Error err, certs, w')"
    by (simp add: getCert_def)
qed

theorem getCert_memoizes_witness:
  "GenerateCert exampleCrypto exampleCA ''example.com'' 4 = (Ok leafA, 7) \<and>
   getCert exampleCrypto (Some Map.empty) exampleCA ''example.com'' 4 =
     (Ok leafA, Some [''example.com'' \<mapsto> leafA], 7) \<and>
   GenerateCert exampleCrypto exampleCA ''other.example'' 7 = (Ok leafB, 10) \<and>
   getCert exampleCrypto (Some [''example.com'' \<mapsto> leafA]) exampleCA ''other.example'' 7 =
     (Ok leafB, Some [''example.com'' \<mapsto> leafA, ''other.example'' \<mapsto> leafB], 10) \<and>
   getCert failingCrypto (Some [''example.com'' \<mapsto> leafA, ''other.example'' \<mapsto> leafB])
       exampleCA ''example.com'' 10 =
     (Ok leafA, Some [''example.com'' \<mapsto> leafA, ''other.example'' \<mapsto> leafB], 10) \<and>
   getCert failingCrypto (Some [''example.com'' \<mapsto> leafA, ''other.example'' \<mapsto> leafB])
       exampleCA ''other.example'' 10 =
     (Ok leafB, Some [''example.com'' \<mapsto> leafA, ''other.example'' \<mapsto> leafB], 10) \<and>
   cache_lookup (Some [''example.com'' \<mapsto> leafA, ''other.example'' \<mapsto> leafB])
       ''example.com'' =
     cache_lookup (Some [''example.com'' \<mapsto> leafA]) ''example.com'' \<and>
   leafA \<noteq> leafB \<and>
   GenerateCert failingCrypto exampleCA ''example.com'' 4 =
     (Error (ErrorSerialNumber (LibraryError ''entropy'')), 4) \<and>
   getCert failingCrypto (Some Map.empty) exampleCA ''example.com'' 4 =
     (Error (ErrorSerialNumber (LibraryError ''entropy'')), Some Map.empty, 4)"
proof -
  note defs = GenerateCert_def exampleCrypto_def failingCrypto_def exampleCA_def leafA_def
    leafB_def Let_def
  have genA: "GenerateCert exampleCrypto exampleCA ''example.com'' 4 = (Ok leafA, 7)"
    by (simp add: defs)
  have genB: "GenerateCert exampleCrypto exampleCA ''other.example'' 7 = (Ok leafB, 10)"
    by (simp add: defs)
  have fails: "GenerateCert failingCrypto exampleCA ''example.com'' 4 =
     (Error (ErrorSerialNumber (LibraryError ''entropy'')), 4)"
    by (simp add: defs)
  have missA: "Map.empty ''example.com'' = (None :: tls_Certificate option)"
    by simp
  have missB: "[''example.com'' \<mapsto> leafA] ''other.example'' = None"
    by simp
  have heldA: "[''example.com'' \<mapsto> leafA, ''other.example'' \<mapsto> leafB] ''example.com'' = Some leafA"
    by simp
  have heldB: "[''example.com'' \<mapsto> leafA, ''other.example'' \<mapsto> leafB] ''other.example'' = Some leafB"
    by simp
  have storeA: "getCert exampleCrypto (Some Map.empty) exampleCA ''example.com'' 4 =
     (Ok leafA, Some [''example.com'' \<mapsto> leafA], 7)"
    by (rule getCert_memoizes [where m = Map.empty and host = "''example.com''",
          THEN conjunct2, THEN conjunct1, rule_format, THEN conjunct1,
          OF conjI [OF refl conjI [OF missA genA]]])
  have storeB: "getCert exampleCrypto (Some [''example.com'' \<mapsto> leafA]) exampleCA
       ''other.example'' 7 =
     (Ok leafB, Some [''example.com'' \<mapsto> leafA, ''other.example'' \<mapsto> leafB], 10)"
    by (rule getCert_memoizes [where m = "[''example.com'' \<mapsto> leafA]"
          and host = "''other.example''",
          THEN conjunct2, THEN conjunct1, rule_format, THEN conjunct1,
          OF conjI [OF refl conjI [OF missB genB]]])
  have hitA: "getCert failingCrypto
       (Some [''example.com'' \<mapsto> leafA, ''other.example'' \<mapsto> leafB]) exampleCA
       ''example.com'' 10 =
     (Ok leafA, Some [''example.com'' \<mapsto> leafA, ''other.example'' \<mapsto> leafB], 10)"
    by (rule getCert_memoizes [where m = "[''example.com'' \<mapsto> leafA, ''other.example'' \<mapsto> leafB]"
          and host = "''example.com''", THEN conjunct1, rule_format, OF conjI [OF refl heldA]])
  have hitB: "getCert failingCrypto
       (Some [''example.com'' \<mapsto> leafA, ''other.example'' \<mapsto> leafB]) exampleCA
       ''other.example'' 10 =
     (Ok leafB, Some [''example.com'' \<mapsto> leafA, ''other.example'' \<mapsto> leafB], 10)"
    by (rule getCert_memoizes [where m = "[''example.com'' \<mapsto> leafA, ''other.example'' \<mapsto> leafB]"
          and host = "''other.example''", THEN conjunct1, rule_format, OF conjI [OF refl heldB]])
  have kept: "cache_lookup (Some [''example.com'' \<mapsto> leafA, ''other.example'' \<mapsto> leafB])
       ''example.com'' =
     cache_lookup (Some [''example.com'' \<mapsto> leafA]) ''example.com''"
    by (rule getCert_memoizes [THEN conjunct2, THEN conjunct2, THEN conjunct2, THEN conjunct1,
          rule_format, OF conjI [OF storeB]]) simp
  have miss: "cache_lookup (Some Map.empty) ''example.com'' = None"
    by (simp add: cache_lookup_def)
  have failed: "getCert failingCrypto (Some Map.empty) exampleCA ''example.com'' 4 =
     (Error (ErrorSerialNumber (LibraryError ''entropy'')), Some Map.empty, 4)"
    by (rule getCert_memoizes [THEN conjunct2, THEN conjunct2, THEN conjunct2, THEN conjunct2,
          rule_format, OF conjI [OF miss fails]])
  have diff: "leafA \<noteq> leafB"
    by (simp add: leafA_def leafB_def)
  show ?thesis
    using genA storeA genB storeB hitA hitB kept diff fails failed by simp
qed

text \<open>
  Before \<^verbatim>\<open>NewProxy\<close> has made the map, a certificate that was minted cannot be stored:
  the assignment to an entry of the nil map panics.
\<close>

lemma getCert_nil_map:
  "GenerateCert lib ca host w = (Ok cert, w') \<Longrightarrow>
   getCert lib None ca host w = (Panic NilMapAssignment, None, w')"
  by (simp add: getCert_def cache_lookup_def)

section \<open>Claims about forwarding\<close>

text \<open>
  C6, as amended. When \<^verbatim>\<open>HandleRequest\<close> is set and returns a response, \<^verbatim>\<open>forwardReq\<close>
  returns that response and the list of requests handed to \<^verbatim>\<open>HttpClient.Do\<close> is what
  it was: no upstream call. When the handler returns \<^verbatim>\<open>nil\<close> and \<^verbatim>\<open>url.Parse\<close> accepts
  \<^verbatim>\<open>destinationHost\<close>, the request, with the request URI cleared and scheme and host
  of the parsed URL, is handed to \<^verbatim>\<open>HttpClient.Do\<close> once and its answer returned. When
  \<^verbatim>\<open>url.Parse\<close> rejects \<^verbatim>\<open>destinationHost\<close>, its error is returned and there is no
  upstream call.
\<close>

theorem forwardReq_short_circuit:
  "(HandleRequest p = Some h \<and> ctx ''session'' = Some (Int64 session) \<and>
    h session clientRequest = (Some hResp, handled) \<longrightarrow>
      forwardReq url_Parse p ctx clientRequest destinationHost upstream =
        (Ok hResp, handled, upstream)) \<and>
   (HandleRequest p = Some h \<and> ctx ''session'' = Some (Int64 session) \<and>
    h session clientRequest = (None, handled) \<and> url_Parse destinationHost = Ok u \<longrightarrow>
      forwardReq url_Parse p ctx clientRequest destinationHost upstream =
        (HttpClient_Do p upstream
           (handled\<lparr>RequestURI := [], URL := (URL handled)\<lparr>Scheme := Scheme u, Host := Host u\<rparr>\<rparr>),
         handled\<lparr>RequestURI := [], URL := (URL handled)\<lparr>Scheme := Scheme u, Host := Host u\<rparr>\<rparr>,
         upstream @
           [handled\<lparr>RequestURI := [], URL := (URL handled)\<lparr>Scheme := Scheme u, Host := Host u\<rparr>\<rparr>])) \<and>
   (HandleRequest p = Some h \<and> ctx ''session'' = Some (Int64 session) \<and>
    h session clientRequest = (None, handled) \<and> url_Parse destinationHost = Error err \<longrightarrow>
      forwardReq url_Parse p ctx clientRequest destinationHost upstream =
        (Error err, handled\<lparr>RequestURI := []\<rparr>, upstream))"
  by (simp add: forwardReq_def Let_def)

theorem forwardReq_short_circuit_witness:
  "HandleRequest exampleProxy = Some blockingHandler \<and>
   exampleContext ''session'' = Some (Int64 7) \<and>
   blockingHandler 7 (exampleRequest\<lparr>ReqHost := ''blocked.example''\<rparr>) =
     (Some blockedResponse, exampleRequest\<lparr>ReqHost := ''blocked.example''\<rparr>) \<and>
   forwardReq urlParse_example exampleProxy exampleContext
       (exampleRequest\<lparr>ReqHost := ''blocked.example''\<rparr>) ''http://example.com/'' [] =
     (Ok blockedResponse, exampleRequest\<lparr>ReqHost := ''blocked.example''\<rparr>, []) \<and>
   blockingHandler 7 exampleRequest = (None, exampleRequest) \<and>
   urlParse_example ''http://example.com/'' =
     Ok \<lparr>Scheme = ''http'', Host = ''example.com'', Path = ''/''\<rparr> \<and>
   forwardReq urlParse_example exampleProxy exampleContext exampleRequest
       ''http://example.com/'' [] =
     (Ok upstreamResponse,
      exampleRequest\<lparr>RequestURI := [],
        URL := \<lparr>Scheme = ''http'', Host = ''example.com'', Path = ''/''\<rparr>\<rparr>,
      [exampleRequest\<lparr>RequestURI := [],
        URL := \<lparr>Scheme = ''http'', Host = ''example.com'', Path = ''/''\<rparr>\<rparr>]) \<and>
   urlParse_example [CHR 0x7F] =
     Error (UrlError ''parse'' [CHR 0x7F]
       (LibraryError ''net/url: invalid control character in URL'')) \<and>
   forwardReq urlParse_example exampleProxy exampleContext exampleRequest [CHR 0x7F]
       [exampleRequest] =
     (Error (UrlError ''parse'' [CHR 0x7F]
       (LibraryError ''net/url: invalid control character in URL'')),
      exampleRequest\<lparr>RequestURI := []\<rparr>, [exampleRequest])"
proof -
  have a: "HandleRequest exampleProxy = Some blockingHandler"
    "exampleContext ''session'' = Some (Int64 7)"
    by (simp_all add: exampleProxy_def exampleContext_def)
  have b: "blockingHandler 7 (exampleRequest\<lparr>ReqHost := ''blocked.example''\<rparr>) =
     (Some blockedResponse, exampleRequest\<lparr>ReqHost := ''blocked.example''\<rparr>)"
    by (simp add: blockingHandler_def)
  have c: "blockingHandler 7 exampleRequest = (None, exampleRequest)"
    by (simp add: blockingHandler_def exampleRequest_def)
  have d: "urlParse_example ''http://example.com/'' =
     Ok \<lparr>Scheme = ''http'', Host = ''example.com'', Path = ''/''\<rparr>"
    by (simp add: urlParse_example_def)
  have e: "HttpClient_Do exampleProxy sent r = Ok upstreamResponse" for sent r
    by (simp add: exampleProxy_def)
  have f: "urlParse_example [CHR 0x7F] =
     Error (UrlError ''parse'' [CHR 0x7F]
       (LibraryError ''net/url: invalid control character in URL''))"
    by (simp add: urlParse_example_def)
  from forwardReq_short_circuit [where p = exampleProxy and h = blockingHandler
      and ctx = exampleContext and session = 7
      and clientRequest = "exampleRequest\<lparr>ReqHost := ''blocked.example''\<rparr>"
      and hResp = blockedResponse
      and handled = "exampleRequest\<lparr>ReqHost := ''blocked.example''\<rparr>"
      and url_Parse = urlParse_example and destinationHost = "''http://example.com/''"
      and upstream = "[]"]
    forwardReq_short_circuit [where p = exampleProxy and h = blockingHandler
      and ctx = exampleContext and session = 7 and clientRequest = exampleRequest
      and handled = exampleRequest and url_Parse = urlParse_example
      and destinationHost = "''http://example.com/''" and upstream = "[]"
      and u = "\<lparr>Scheme = ''http'', Host = ''example.com'', Path = ''/''\<rparr>"]
    forwardReq_short_circuit [where p = exampleProxy and h = blockingHandler
      and ctx = exampleContext and session = 7 and clientRequest = exampleRequest
      and handled = exampleRequest and url_Parse = urlParse_example
      and destinationHost = "[CHR 0x7F]" and upstream = "[exampleRequest]"
      and err = "UrlError ''parse'' [CHR 0x7F]
        (LibraryError ''net/url: invalid control character in URL'')"]
  show ?thesis
    using a b c d f by (simp add: e) (simp add: exampleRequest_def)
qed

text \<open>
  C6 as stated fails: the handler returns \<^verbatim>\<open>nil\<close>, \<^verbatim>\<open>url.Parse\<close> rejects the
  destination (here the one character \<^verbatim>\<open>DEL\<close>), and \<^verbatim>\<open>forwardReq\<close> returns the parse
  error with nothing handed to \<^verbatim>\<open>HttpClient.Do\<close>.
\<close>

theorem forwardReq_not_forwarded_counterexample:
  "HandleRequest exampleProxy = Some blockingHandler \<and>
   exampleContext ''session'' = Some (Int64 7) \<and>
   blockingHandler 7 exampleRequest = (None, exampleRequest) \<and>
   forwardReq urlParse_example exampleProxy exampleContext exampleRequest [CHR 0x7F] [] =
     (Error (UrlError ''parse'' [CHR 0x7F]
       (LibraryError ''net/url: invalid control character in URL'')),
      exampleRequest\<lparr>RequestURI := []\<rparr>, [])"
  by (simp add: forwardReq_def Let_def exampleProxy_def exampleContext_def blockingHandler_def
      exampleRequest_def urlParse_example_def)

section \<open>Claims about the WebSocket relay\<close>

text \<open>
  C7. \<^verbatim>\<open>computeAcceptKey\<close> is the base64 encoding of the SHA-1 digest of the key
  followed by the GUID, and on the key of RFC 6455, section 1.3, it gives the accept
  value of that section.
\<close>

theorem computeAcceptKey_rfc6455:
  "computeAcceptKey key =
     EncodeToString (sha1 (bytes key @ bytes ''258EAFA5-E914-47DA-95CA-C5AB0DC85B11'')) \<and>
   computeAcceptKey ''dGhlIHNhbXBsZSBub25jZQ=='' = ''s3pPLMBiTxaQ9kYGzzhZRbK+xOo=''"
proof
  show general: "computeAcceptKey key =
     EncodeToString (sha1 (bytes key @ bytes ''258EAFA5-E914-47DA-95CA-C5AB0DC85B11''))" for key
    by (simp add: computeAcceptKey_def Let_def sha1_New_def hash_Write_def hash_Sum_def
        keyGUID_def)
  have "bytes ''dGhlIHNhbXBsZSBub25jZQ=='' @ bytes ''258EAFA5-E914-47DA-95CA-C5AB0DC85B11'' =
      bytes ''dGhlIHNhbXBsZSBub25jZQ==258EAFA5-E914-47DA-95CA-C5AB0DC85B11''"
    by (simp add: bytes_def)
  then show "computeAcceptKey ''dGhlIHNhbXBsZSBub25jZQ=='' = ''s3pPLMBiTxaQ9kYGzzhZRbK+xOo=''"
    by (simp only: general sha1_rfc6455_sample base64_rfc6455_sample)
qed

lemma interceptWebsocket_no_return:
  "interceptWebsocket fuel dst scanner handler \<noteq> Some (Ok u, dst')"
  by (induction fuel arbitrary: dst scanner)
    (auto split: prod.splits result.splits option.splits)

text \<open>
  C8 does not hold of the code. On a source at end of file the pump is still in its
  loop after any number of iterations: \<^verbatim>\<open>Peek\<close> reports \<^verbatim>\<open>io.EOF\<close> and the loop
  \<^verbatim>\<open>continue\<close>s.
\<close>

theorem interceptWebsocket_spins_at_EOF:
  "interceptWebsocket fuel dst [] handler = None"
  by (induction fuel) (simp_all add: Peek1_def)

text \<open>
  C10. A request without \<^verbatim>\<open>Sec-Websocket-Key\<close> makes \<^verbatim>\<open>websocketHandshake\<close> panic
  with an index out of range before it writes or reads anything; the gate
  \<^verbatim>\<open>isWebSocketRequest\<close> gives the same answer whatever is stored under that header
  (and whatever the two string functions of the library do), so
  it lets such a request pass; and \<^verbatim>\<open>serveWebsocket\<close> runs the handshake, and panics, as
  soon as the dial succeeds.
\<close>

theorem websocketHandshake_missing_key:
  "(Header req ''Sec-Websocket-Key'' = None \<longrightarrow>
      websocketHandshake io req n = (Panic IndexOutOfRange, n)) \<and>
   isWebSocketRequest strings (req\<lparr>Header := (Header req)(''Sec-Websocket-Key'' := v)\<rparr>) =
     isWebSocketRequest strings req \<and>
   (Header req ''Sec-Websocket-Key'' = None \<and> connectDial n = (True, n') \<longrightarrow>
      serveWebsocket connectDial io req n = (Panic IndexOutOfRange, n'))"
  by (simp add: websocketHandshake_def isWebSocketRequest_def headerContains_def
      serveWebsocket_def)

theorem websocketHandshake_missing_key_witness:
  "isWebSocketRequest asciiStrings keylessUpgrade \<and>
   Header keylessUpgrade ''Sec-Websocket-Key'' = None \<and>
   websocketHandshake exampleIO keylessUpgrade 0 = (Panic IndexOutOfRange, 0) \<and>
   serveWebsocket (\<lambda>n. (True, Suc n)) exampleIO keylessUpgrade 0 = (Panic IndexOutOfRange, 1)"
proof -
  have gate: "isWebSocketRequest asciiStrings keylessUpgrade"
    by code_simp
  have nokey: "Header keylessUpgrade ''Sec-Websocket-Key'' = None"
    by (simp add: keylessUpgrade_def)
  from websocketHandshake_missing_key [where req = keylessUpgrade and io = exampleIO and n = 0
      and connectDial = "\<lambda>n. (True, Suc n)" and n' = 1]
  show ?thesis using gate nokey by simp
qed

end
